theory Spec2Isabelle
  imports Complex_Main
begin

section \<open>JavaScript values and errors\<close>

text \<open>
  The operator manager (\<^verbatim>\<open>rollup-operator/src/operator-manager.js\<close>) receives its gas
  multiplier and its gas limit as untyped JavaScript values. The primitive values are
  modelled as a datatype; a finite Number is a rational (every finite double is one), the
  three non-finite Numbers are constructors of their own. Objects, arrays and symbols
  are not modelled.
\<close>

datatype js_value =
    JUndefined
  | JNull
  | JBool bool
  | JNumber rat
  | JNaN
  | JInfinity
  | JNegInfinity
  | JString string
  | JBigInt int

text \<open>
  What a call can throw: the three errors of the built-in \<^verbatim>\<open>BigInt\<close> conversion, and the
  rejection of a promise of the web3 library (with its message).
\<close>

datatype error = RangeError | SyntaxError | TypeError | Rejected string

text \<open>
  \<^verbatim>\<open>await p\<close> followed by the rest of an async function: a rejected promise ends the
  function with the same error.
\<close>

definition await :: "error + 'a \<Rightarrow> ('a \<Rightarrow> error + 'b) \<Rightarrow> error + 'b" where
  "await p k = (case p of Inl e \<Rightarrow> Inl e | Inr x \<Rightarrow> k x)"

subsection \<open>The built-in conversion \<^verbatim>\<open>BigInt(v)\<close>\<close>

text \<open>
  A string is converted by the grammar of StringToBigInt: white space is trimmed, the
  empty string is zero, a literal is a signed decimal numeral or an unsigned numeral
  with one of the prefixes \<^verbatim>\<open>0x\<close>, \<^verbatim>\<open>0o\<close>, \<^verbatim>\<open>0b\<close>. A string is the list of the bytes of its
  UTF-8 encoding, so a white space character is a sequence of one to three bytes.
\<close>

text \<open>
  The characters of StrWhiteSpaceChar: tab, line feed, vertical tab, form feed, carriage
  return, space, U+00A0, U+1680, U+2000 to U+200A, U+2028, U+2029, U+202F, U+205F,
  U+3000 and U+FEFF.
\<close>

definition whiteSpaceChars :: "string list" where
  "whiteSpaceChars =
     [[CHR 0x09], [CHR 0x0A], [CHR 0x0B], [CHR 0x0C], [CHR 0x0D], [CHR 0x20],
      [CHR 0xC2, CHR 0xA0], [CHR 0xE1, CHR 0x9A, CHR 0x80],
      [CHR 0xE2, CHR 0x80, CHR 0x80], [CHR 0xE2, CHR 0x80, CHR 0x81],
      [CHR 0xE2, CHR 0x80, CHR 0x82], [CHR 0xE2, CHR 0x80, CHR 0x83],
      [CHR 0xE2, CHR 0x80, CHR 0x84], [CHR 0xE2, CHR 0x80, CHR 0x85],
      [CHR 0xE2, CHR 0x80, CHR 0x86], [CHR 0xE2, CHR 0x80, CHR 0x87],
      [CHR 0xE2, CHR 0x80, CHR 0x88], [CHR 0xE2, CHR 0x80, CHR 0x89],
      [CHR 0xE2, CHR 0x80, CHR 0x8A], [CHR 0xE2, CHR 0x80, CHR 0xA8],
      [CHR 0xE2, CHR 0x80, CHR 0xA9], [CHR 0xE2, CHR 0x80, CHR 0xAF],
      [CHR 0xE2, CHR 0x81, CHR 0x9F], [CHR 0xE3, CHR 0x80, CHR 0x80],
      [CHR 0xEF, CHR 0xBB, CHR 0xBF]]"

text \<open>The length of the pattern of \<open>ps\<close> that \<open>s\<close> starts with, zero when there is none.\<close>

definition matchLen :: "string list \<Rightarrow> string \<Rightarrow> nat" where
  "matchLen ps s =
     (case find (\<lambda>p. take (length p) s = p) ps of None \<Rightarrow> 0 | Some p \<Rightarrow> length p)"

text \<open>Leading patterns are removed as long as there is one.\<close>

fun stripAll :: "string list \<Rightarrow> string \<Rightarrow> string" where
  "stripAll ps [] = []"
| "stripAll ps (c # cs) =
     (if matchLen ps (c # cs) = 0 then c # cs
      else stripAll ps (drop (matchLen ps (c # cs) - 1) cs))"

text \<open>White space is removed at the start, and, read backwards, at the end.\<close>

definition trim :: "string \<Rightarrow> string" where
  "trim s = rev (stripAll (map rev whiteSpaceChars) (rev (stripAll whiteSpaceChars s)))"

definition digitVal :: "char \<Rightarrow> nat option" where
  "digitVal c = (let n = (of_char c :: nat) in
     if 48 \<le> n \<and> n \<le> 57 then Some (n - 48)
     else if 97 \<le> n \<and> n \<le> 122 then Some (n - 87)
     else if 65 \<le> n \<and> n \<le> 90 then Some (n - 55)
     else None)"

fun parseDigits :: "nat \<Rightarrow> string \<Rightarrow> nat \<Rightarrow> nat option" where
  "parseDigits b [] acc = Some acc"
| "parseDigits b (c # cs) acc =
     (case digitVal c of
        None \<Rightarrow> None
      | Some d \<Rightarrow> if d < b then parseDigits b cs (acc * b + d) else None)"

definition parseNat :: "nat \<Rightarrow> string \<Rightarrow> nat option" where
  "parseNat b s = (if s = [] then None else parseDigits b s 0)"

definition StringToBigInt :: "string \<Rightarrow> int option" where
  "StringToBigInt s = (let t = trim s in
     if t = [] then Some 0
     else if take 2 t = ''0x'' \<or> take 2 t = ''0X'' then map_option int (parseNat 16 (drop 2 t))
     else if take 2 t = ''0o'' \<or> take 2 t = ''0O'' then map_option int (parseNat 8 (drop 2 t))
     else if take 2 t = ''0b'' \<or> take 2 t = ''0B'' then map_option int (parseNat 2 (drop 2 t))
     else if hd t = CHR ''-'' then map_option (\<lambda>n. - int n) (parseNat 10 (tl t))
     else if hd t = CHR ''+'' then map_option int (parseNat 10 (tl t))
     else map_option int (parseNat 10 t))"

text \<open>
  \<^verbatim>\<open>BigInt(v)\<close>: a Number must be integral (RangeError otherwise), a string must be an
  integer literal (SyntaxError otherwise), \<^verbatim>\<open>undefined\<close> and \<^verbatim>\<open>null\<close> are a TypeError.
\<close>

definition BigInt :: "js_value \<Rightarrow> error + int" where
  "BigInt v = (case v of
      JNumber r \<Rightarrow> if of_int \<lfloor>r\<rfloor> = r then Inr \<lfloor>r\<rfloor> else Inl RangeError
    | JNaN \<Rightarrow> Inl RangeError
    | JInfinity \<Rightarrow> Inl RangeError
    | JNegInfinity \<Rightarrow> Inl RangeError
    | JUndefined \<Rightarrow> Inl TypeError
    | JNull \<Rightarrow> Inl TypeError
    | JBool b \<Rightarrow> Inr (if b then 1 else 0)
    | JString s \<Rightarrow> (case StringToBigInt s of None \<Rightarrow> Inl SyntaxError | Some n \<Rightarrow> Inr n)
    | JBigInt n \<Rightarrow> Inr n)"

subsection \<open>\<^verbatim>\<open>BigInt.prototype.toString()\<close>\<close>

text \<open>The decimal numeral of an integer: a minus sign for a negative one, no leading zero.\<close>

definition digitChar :: "nat \<Rightarrow> char" where
  "digitChar d = ''0123456789'' ! d"

fun digits :: "nat \<Rightarrow> string" where
  "digits n = (if n < 10 then [digitChar n] else digits (n div 10) @ [digitChar (n mod 10)])"

declare digits.simps [simp del]

definition toString :: "int \<Rightarrow> string" where
  "toString i = (if i < 0 then CHR ''-'' # digits (nat (- i)) else digits (nat i))"

section \<open>The operator manager\<close>

text \<open>
  The wallet that signs, and the fields the constructor sets. The fields \<^verbatim>\<open>web3\<close> and
  \<^verbatim>\<open>rollupPoS\<close> are handles of the web3 library; what the methods ask of them is the
  record \<open>web3\<close> below, passed to each method.
\<close>

record wallet =
  address :: string
  privateKey :: string

record operator_manager =
  wallet :: wallet
  nodeUrl :: string
  posAddress :: string
  gasMul :: int
  gasLimit :: js_value

text \<open>
  The object literal \<^verbatim>\<open>tx\<close> of the six builders. Only \<^verbatim>\<open>getTxRegister\<close> sets \<^verbatim>\<open>value\<close>.
\<close>

record raw_tx =
  txFrom :: string
  txTo :: string
  txGasLimit :: js_value
  txGasPrice :: string
  txValue :: "string option"
  txData :: string

text \<open>The methods of the staking contract a builder encodes a call of.\<close>

datatype contract_call =
    AddOperator string string
  | RemoveOperator js_value
  | Withdraw js_value
  | CommitBatch string string
  | ForgeCommittedBatch "string list" "string list list" "string list" "string list"
  | CommitAndForge string string "string list" "string list list" "string list" "string list"

text \<open>
  A web3 instance and the node behind it, as the manager uses them. Each call may
  throw or reject. \<open>eth_Contract abi a\<close> stands for \<^verbatim>\<open>new web3.eth.Contract(abi, a)\<close>, which
  throws on an interface or an address it cannot read; \<open>eth_getGasPrice\<close> is the node's
  answer to \<^verbatim>\<open>web3.eth.getGasPrice()\<close>; \<open>toWeiHex v\<close> stands for
  \<^verbatim>\<open>toHex(toWei(v.toString(), "ether"))\<close>; \<open>encodeABI c\<close> for the ABI encoding of the call
  \<open>c\<close> (of \<^verbatim>\<open>opId.toString()\<close> where the source converts); \<open>eth_signTransaction\<close> for
  \<^verbatim>\<open>web3.eth.accounts.signTransaction\<close>.
\<close>

record 's web3 =
  eth_Contract :: "string \<Rightarrow> string \<Rightarrow> error + unit"
  eth_getGasPrice :: "error + string"
  toWeiHex :: "js_value \<Rightarrow> error + string"
  encodeABI :: "contract_call \<Rightarrow> error + string"
  eth_signTransaction :: "raw_tx \<Rightarrow> string \<Rightarrow> error + 's"

text \<open>
  The constructor, statement by statement. \<open>Web3 url\<close> stands for
  \<^verbatim>\<open>new Web3(new Web3.providers.HttpProvider(url))\<close> of the required module; it and the
  creation of the contract handle may throw, and they run before \<^verbatim>\<open>BigInt(gasMul)\<close>,
  which may throw too. \<^verbatim>\<open>gasLimit === "default"\<close> is strict equality with the string.
  The two handles are not kept in the record: each method is handed the instance.
\<close>

definition constructor ::
  "(string \<Rightarrow> error + 's web3) \<Rightarrow> string \<Rightarrow> string \<Rightarrow> string \<Rightarrow> wallet \<Rightarrow> js_value
     \<Rightarrow> js_value \<Rightarrow> error + operator_manager" where
  "constructor Web3 nodeUrl' contractAddress abi wallet' gasMul' gasLimit' =
     await (Web3 nodeUrl') (\<lambda>web3.
     await (eth_Contract web3 abi contractAddress) (\<lambda>rollupPoS.
     await (BigInt gasMul') (\<lambda>g.
       Inr \<lparr>wallet = wallet', nodeUrl = nodeUrl', posAddress = contractAddress, gasMul = g,
            gasLimit = (if gasLimit' = JString ''default'' then JNumber (2 * 616240)
                        else gasLimit')\<rparr>)))"

text \<open>\<^verbatim>\<open>_getGasPrice\<close>: the node's average gas price times the multiplier, as a string.\<close>

definition getGasPrice :: "operator_manager \<Rightarrow> 's web3 \<Rightarrow> error + string" where
  "getGasPrice this w =
     await (eth_getGasPrice w) (\<lambda>strAvgGas.
     await (BigInt (JString strAvgGas)) (\<lambda>avgGas.
       Inr (toString (avgGas * gasMul this))))"

definition signTransaction :: "operator_manager \<Rightarrow> 's web3 \<Rightarrow> raw_tx \<Rightarrow> error + 's" where
  "signTransaction this w tx = eth_signTransaction w tx (privateKey (wallet this))"

text \<open>
  The builders. The properties of the object literal are evaluated in the order they
  are written: the gas price first, then the value, then the data.
\<close>

definition getTxRegister ::
  "operator_manager \<Rightarrow> 's web3 \<Rightarrow> string \<Rightarrow> js_value \<Rightarrow> string \<Rightarrow> error + 's" where
  "getTxRegister this w rndHash stakeValue url =
     await (getGasPrice this w) (\<lambda>gp.
     await (toWeiHex w stakeValue) (\<lambda>v.
     await (encodeABI w (AddOperator rndHash url)) (\<lambda>d.
       signTransaction this w
         \<lparr>txFrom = address (wallet this), txTo = posAddress this, txGasLimit = gasLimit this,
          txGasPrice = gp, txValue = Some v, txData = d\<rparr>)))"

definition getTxUnregister :: "operator_manager \<Rightarrow> 's web3 \<Rightarrow> js_value \<Rightarrow> error + 's" where
  "getTxUnregister this w opId =
     await (getGasPrice this w) (\<lambda>gp.
     await (encodeABI w (RemoveOperator opId)) (\<lambda>d.
       signTransaction this w
         \<lparr>txFrom = address (wallet this), txTo = posAddress this, txGasLimit = gasLimit this,
          txGasPrice = gp, txValue = None, txData = d\<rparr>))"

definition getTxWithdraw :: "operator_manager \<Rightarrow> 's web3 \<Rightarrow> js_value \<Rightarrow> error + 's" where
  "getTxWithdraw this w opId =
     await (getGasPrice this w) (\<lambda>gp.
     await (encodeABI w (Withdraw opId)) (\<lambda>d.
       signTransaction this w
         \<lparr>txFrom = address (wallet this), txTo = posAddress this, txGasLimit = gasLimit this,
          txGasPrice = gp, txValue = None, txData = d\<rparr>))"

definition getTxCommit :: "operator_manager \<Rightarrow> 's web3 \<Rightarrow> string \<Rightarrow> string \<Rightarrow> error + 's" where
  "getTxCommit this w prevHash compressedTx =
     await (getGasPrice this w) (\<lambda>gp.
     await (encodeABI w (CommitBatch prevHash compressedTx)) (\<lambda>d.
       signTransaction this w
         \<lparr>txFrom = address (wallet this), txTo = posAddress this, txGasLimit = gasLimit this,
          txGasPrice = gp, txValue = None, txData = d\<rparr>))"

definition getTxForge ::
  "operator_manager \<Rightarrow> 's web3 \<Rightarrow> string list \<Rightarrow> string list list \<Rightarrow> string list \<Rightarrow> string list
     \<Rightarrow> error + 's" where
  "getTxForge this w proofA proofB proofC input =
     await (getGasPrice this w) (\<lambda>gp.
     await (encodeABI w (ForgeCommittedBatch proofA proofB proofC input)) (\<lambda>d.
       signTransaction this w
         \<lparr>txFrom = address (wallet this), txTo = posAddress this, txGasLimit = gasLimit this,
          txGasPrice = gp, txValue = None, txData = d\<rparr>))"

text \<open>\<^verbatim>\<open>getTxCommitAndForge\<close> returns the array \<^verbatim>\<open>[txSign, tx]\<close>: a pair.\<close>

definition getTxCommitAndForge ::
  "operator_manager \<Rightarrow> 's web3 \<Rightarrow> string \<Rightarrow> string \<Rightarrow> string list \<Rightarrow> string list list
     \<Rightarrow> string list \<Rightarrow> string list \<Rightarrow> error + ('s \<times> raw_tx)" where
  "getTxCommitAndForge this w prevHash compressedTx proofA proofB proofC input =
     await (getGasPrice this w) (\<lambda>gp.
     await (encodeABI w (CommitAndForge prevHash compressedTx proofA proofB proofC input)) (\<lambda>d.
       let tx = \<lparr>txFrom = address (wallet this), txTo = posAddress this,
                 txGasLimit = gasLimit this, txGasPrice = gp, txValue = None, txData = d\<rparr>
       in await (signTransaction this w tx) (\<lambda>txSign. Inr (txSign, tx))))"

text \<open>The transaction object every builder fills in: only the gas price, the value and
  the data vary.\<close>

abbreviation builtTx :: "operator_manager \<Rightarrow> string \<Rightarrow> string option \<Rightarrow> string \<Rightarrow> raw_tx" where
  "builtTx this gp v d \<equiv>
     \<lparr>txFrom = address (wallet this), txTo = posAddress this, txGasLimit = gasLimit this,
      txGasPrice = gp, txValue = v, txData = d\<rparr>"


subsection \<open>An example manager and library\<close>

text \<open>
  A library whose node answers 20 gwei, whose contract handle wants an address of 40
  hexadecimal digits after \<^verbatim>\<open>0x\<close>, whose encoding names the method called, and whose
  signer returns the transaction with the key it was given; and the manager that the
  constructor builds with it from the multiplier 2 and the default gas limit.
\<close>

definition exampleWallet :: wallet where
  "exampleWallet =
     \<lparr>address = ''0x627306090abaB3A6e1400e9345bC60c78a8BEf57'',
      privateKey = ''0xc87509a1c067bbde78beb793e6fa76530b6382a4c0241e5e4a9ec0a0f44dc0d3''\<rparr>"

definition examplePoS :: string where
  "examplePoS = ''0x8f0483125FCb9aaAEFA9209D8E9d7b9C8B9Fb90F''"

definition exampleWeb3 :: "(raw_tx \<times> string) web3" where
  "exampleWeb3 =
     \<lparr>eth_Contract = (\<lambda>abi a.
        if take 2 a = ''0x'' \<and> parseNat 16 (drop 2 a) \<noteq> None \<and> length a = 42
        then Inr () else Inl (Rejected ''invalid address'')),
      eth_getGasPrice = Inr ''20000000000'',
      toWeiHex = (\<lambda>v. Inr ''0x1bc16d674ec80000''),
      encodeABI = (\<lambda>c. Inr (case c of
          AddOperator h u \<Rightarrow> ''addOperator''
        | RemoveOperator i \<Rightarrow> ''removeOperator''
        | Withdraw i \<Rightarrow> ''withdraw''
        | CommitBatch h d \<Rightarrow> ''commitBatch''
        | ForgeCommittedBatch a b c' i \<Rightarrow> ''forgeCommittedBatch''
        | CommitAndForge h d a b c' i \<Rightarrow> ''commitAndForge'')),
      eth_signTransaction = (\<lambda>tx key. Inr (tx, key))\<rparr>"

definition exampleModule :: "string \<Rightarrow> error + (raw_tx \<times> string) web3" where
  "exampleModule url = Inr exampleWeb3"

definition exampleManager :: operator_manager where
  "exampleManager =
     \<lparr>wallet = exampleWallet, nodeUrl = ''http://localhost:8545'', posAddress = examplePoS,
      gasMul = 2, gasLimit = JNumber 1232480\<rparr>"

text \<open>The transaction the example manager signs, up to its value and its data.\<close>

definition exampleTx :: "string option \<Rightarrow> string \<Rightarrow> raw_tx" where
  "exampleTx v d =
     \<lparr>txFrom = ''0x627306090abaB3A6e1400e9345bC60c78a8BEf57'',
      txTo = ''0x8f0483125FCb9aaAEFA9209D8E9d7b9C8B9Fb90F'', txGasLimit = JNumber 1232480,
      txGasPrice = ''40000000000'', txValue = v, txData = d\<rparr>"

definition exampleKey :: string where
  "exampleKey = ''0xc87509a1c067bbde78beb793e6fa76530b6382a4c0241e5e4a9ec0a0f44dc0d3''"


section \<open>The synchronizer: state tree, batches and queries\<close>

text \<open>
  The test of the synchronizer (in \<^verbatim>\<open>rollup-operator/test\<close>) drives a synchronizer and a
  rollup database: \<^verbatim>\<open>buildBatch\<close>, \<^verbatim>\<open>addCoin\<close>, \<^verbatim>\<open>addTx\<close>,
  \<^verbatim>\<open>consolidate\<close>, \<^verbatim>\<open>getStateByAccount\<close>, \<^verbatim>\<open>getExitsBatchById\<close>, \<^verbatim>\<open>getExitTreeInfo\<close>. Their
  code (\<^verbatim>\<open>src/synch.js\<close>, \<^verbatim>\<open>js/rollupdb.js\<close>, \<^verbatim>\<open>js/constants.js\<close>) is missing: only
  the test that calls it is at hand. The definitions of this section are modelled from the specification
  (its data model, its consolidation protocol and its query layer) and agree with what
  the test asserts. Amounts are plain units. The on-chain deposit events of the test are
  not modelled: only the records of the off-chain payload are.
\<close>

text \<open>
  Modelled from the spec: the account leaf (data model). The account index is not a
  field: it is the position of the leaf in the state tree. Keys and addresses are
  numbers.
\<close>

record leaf =
  coin :: nat
  ax :: nat
  ay :: nat
  ethAddress :: nat
  amount :: nat
  nonce :: nat

text \<open>
  Modelled from the spec: a record of the off-chain payload of a batch, with the fields
  of the objects \<^verbatim>\<open>tx\<close> that the test hands to \<^verbatim>\<open>forgeBlock\<close> (\<^verbatim>\<open>coin\<close>, \<^verbatim>\<open>amount\<close> and
  \<^verbatim>\<open>nonce\<close> are prefixed, the leaf has fields of these names).
\<close>

record tx =
  fromAx :: nat
  fromAy :: nat
  fromEthAddr :: nat
  toAx :: nat
  toAy :: nat
  toEthAddr :: nat
  txCoin :: nat
  txAmount :: nat
  txNonce :: nat
  userFee :: nat
  onChain :: bool

text \<open>
  Modelled from the spec: the reserved exit key and address, \<^verbatim>\<open>GlobalConst.exitAx\<close>,
  \<^verbatim>\<open>exitAy\<close> and \<^verbatim>\<open>exitEthAddr\<close> of the test. Their values are constants of
  \<^verbatim>\<open>js/constants.js\<close>, which is missing; zero is taken.
\<close>

definition exitAx :: nat where
  "exitAx = 0"

definition exitAy :: nat where
  "exitAy = 0"

definition exitEthAddr :: nat where
  "exitEthAddr = 0"

text \<open>
  Modelled from the spec: the variants of a decoded off-chain record (batch decoder, whose
  code is missing). A record is a withdrawal or an off-chain-initiated deposit, and not a
  transfer, exactly when its destination key is the exit key; the test marks the
  off-chain-initiated deposits with \<^verbatim>\<open>onChain: true\<close>.
\<close>

datatype tx_kind = Transfer | DepositOffChain | Exit

definition txKind :: "tx \<Rightarrow> tx_kind" where
  "txKind r =
     (if toAx r = exitAx \<and> toAy r = exitAy
      then (if onChain r then DepositOffChain else Exit)
      else Transfer)"

text \<open>
  Modelled from the spec: the two fatal errors of consolidation (error handling design);
  the code that raises them is missing.
\<close>

datatype sync_error = RootMismatch | CorruptState

text \<open>
  Modelled from the spec: the account index that a coin and a public key determine
  (state tree engine, missing): the position of the first leaf with that identity.
\<close>

fun findAccount :: "leaf list \<Rightarrow> nat \<Rightarrow> nat \<Rightarrow> nat \<Rightarrow> nat option" where
  "findAccount [] c x y = None"
| "findAccount (l # ls) c x y =
     (if coin l = c \<and> ax l = x \<and> ay l = y then Some 0
      else map_option Suc (findAccount ls c x y))"

text \<open>
  Modelled from the spec: \<^verbatim>\<open>insert\<close> of the state tree engine (missing). Indices are
  dense and assigned on first appearance: the new leaf gets the next index.
\<close>

definition treeInsert :: "leaf list \<Rightarrow> leaf \<Rightarrow> leaf list" where
  "treeInsert t l = t @ [l]"

text \<open>
  Modelled from the spec: \<^verbatim>\<open>update\<close> of the state tree engine (missing). An index
  without a leaf is the error CorruptState.
\<close>

definition treeUpdate :: "leaf list \<Rightarrow> nat \<Rightarrow> (leaf \<Rightarrow> leaf) \<Rightarrow> sync_error + leaf list" where
  "treeUpdate t i f = (if i < length t then Inr (t[i := f (t ! i)]) else Inl CorruptState)"

text \<open>Modelled from the spec: the mutation that adds to a balance (missing code).\<close>

definition credit :: "nat \<Rightarrow> leaf \<Rightarrow> leaf" where
  "credit n l = l\<lparr>amount := amount l + n\<rparr>"

text \<open>
  Modelled from the spec: the update that takes \<open>n\<close> from the balance of the leaf \<open>i\<close>
  (missing code). A balance is a non-negative integer, so a debit above the balance
  cannot be applied; the spec names no error of its own for it, CorruptState is taken.
\<close>

definition debit :: "leaf list \<Rightarrow> nat \<Rightarrow> nat \<Rightarrow> sync_error + leaf list" where
  "debit t i n =
     (if i < length t \<and> n \<le> amount (t ! i)
      then treeUpdate t i (\<lambda>l. l\<lparr>amount := amount l - n\<rparr>)
      else Inl CorruptState)"

text \<open>
  Modelled from the spec: the fee/coin registry (missing code), the list of the pairs
  (coin, fee) that \<^verbatim>\<open>addCoin\<close> attached to the batch. The fee applied to a record is the
  fee registered for its coin, and none when the coin is not registered.
\<close>

definition feeOf :: "(nat \<times> nat) list \<Rightarrow> nat \<Rightarrow> nat" where
  "feeOf reg c = (case map_of reg c of None \<Rightarrow> 0 | Some f \<Rightarrow> f)"

text \<open>
  Modelled from the spec: the exit tree of a batch (missing code) holds one leaf per
  account that exited in the batch, with the amount withdrawn; a further exit of the
  same account in the batch adds to its leaf.
\<close>

definition addExit :: "leaf list \<Rightarrow> leaf \<Rightarrow> nat \<Rightarrow> leaf list" where
  "addExit ex l n =
     (case findAccount ex (coin l) (ax l) (ay l) of
        None \<Rightarrow> treeInsert ex (l\<lparr>amount := n\<rparr>)
      | Some k \<Rightarrow> ex[k := credit n (ex ! k)])"

text \<open>
  Modelled from the spec: what the application of a batch's records carries along
  (missing code): the leaves, the exit tree of the batch, and the fees collected per
  coin, the quantity of the spec's conservation property.
\<close>

record batch_state =
  bsLeaves :: "leaf list"
  bsExits :: "leaf list"
  bsFees :: "nat \<Rightarrow> nat"

text \<open>
  Modelled from the spec: the application of one record (consolidation protocol, step 2;
  the code, \<^verbatim>\<open>js/rollupdb.js\<close> and its batch builder, is missing).
  \<^item> An off-chain-initiated deposit creates the leaf of the sender's identity with the
    record's amount (the test: amount 0), or credits the amount to the leaf there is.
  \<^item> A transfer takes the amount and the fee from the sender and gives the amount to
    the recipient; both must have a leaf.
  \<^item> A withdrawal takes the amount and the fee from the sender and records the amount
    in the exit tree of the batch; the leaf stays in the state tree.

  That the fee is taken from the sender on top of the amount is what the test asserts
  (\<^verbatim>\<open>Should add off-chain tx with fee and synch\<close>: amount 5 and fee 5 take the sender from
  11 to 1 and the recipient from 0 to 5; \<^verbatim>\<open>Should add two off-chain withdraw and synch\<close>:
  amount 19 and fee 1 take the sender from 20 to 0), and what the spec's conservation
  property states. The spec gives no rule for the nonce and none for a user fee below
  the registered fee; the model has none.
\<close>

definition applyTx :: "(nat \<times> nat) list \<Rightarrow> batch_state \<Rightarrow> tx \<Rightarrow> sync_error + batch_state" where
  "applyTx reg st r =
     (let t = bsLeaves st; c = txCoin r; fee = feeOf reg c in
      case txKind r of
        DepositOffChain \<Rightarrow>
          (case findAccount t c (fromAx r) (fromAy r) of
             None \<Rightarrow>
               Inr (st\<lparr>bsLeaves := treeInsert t
                      \<lparr>coin = c, ax = fromAx r, ay = fromAy r, ethAddress = fromEthAddr r,
                       amount = txAmount r, nonce = 0\<rparr>\<rparr>)
           | Some i \<Rightarrow>
               (case treeUpdate t i (credit (txAmount r)) of
                  Inl e \<Rightarrow> Inl e
                | Inr t' \<Rightarrow> Inr (st\<lparr>bsLeaves := t'\<rparr>)))
      | Transfer \<Rightarrow>
          (case findAccount t c (fromAx r) (fromAy r) of
             None \<Rightarrow> Inl CorruptState
           | Some i \<Rightarrow>
               (case findAccount t c (toAx r) (toAy r) of
                  None \<Rightarrow> Inl CorruptState
                | Some j \<Rightarrow>
                    (case debit t i (txAmount r + fee) of
                       Inl e \<Rightarrow> Inl e
                     | Inr t' \<Rightarrow>
                         (case treeUpdate t' j (credit (txAmount r)) of
                            Inl e \<Rightarrow> Inl e
                          | Inr t'' \<Rightarrow>
                              Inr (st\<lparr>bsLeaves := t'',
                                      bsFees := (bsFees st)(c := bsFees st c + fee)\<rparr>)))))
      | Exit \<Rightarrow>
          (case findAccount t c (fromAx r) (fromAy r) of
             None \<Rightarrow> Inl CorruptState
           | Some i \<Rightarrow>
               (case debit t i (txAmount r + fee) of
                  Inl e \<Rightarrow> Inl e
                | Inr t' \<Rightarrow>
                    Inr (st\<lparr>bsLeaves := t',
                            bsExits := addExit (bsExits st) (t ! i) (txAmount r),
                            bsFees := (bsFees st)(c := bsFees st c + fee)\<rparr>))))"

text \<open>
  Modelled from the spec: the records of a batch are applied in list order, and the
  first error ends the application (missing code).
\<close>

fun applyTxs :: "(nat \<times> nat) list \<Rightarrow> batch_state \<Rightarrow> tx list \<Rightarrow> sync_error + batch_state" where
  "applyTxs reg st [] = Inr st"
| "applyTxs reg st (r # rs) =
     (case applyTx reg st r of Inl e \<Rightarrow> Inl e | Inr st' \<Rightarrow> applyTxs reg st' rs)"

text \<open>
  Modelled from the spec: a batch (data model): its number, its ordered records, its
  (coin, fee) entries and the state tree root committed on-chain.
\<close>

record batch =
  batchNumber :: nat
  transactions :: "tx list"
  coins :: "(nat \<times> nat) list"
  newRoot :: nat

text \<open>
  Modelled from the spec: the state the synchronizer serves queries from (missing code):
  the state tree, the fee/coin registry and the fees collected of the last batch, the
  exit tree snapshots by batch number (archive mode, as the test configures it), and the
  last batch consolidated.
\<close>

record synchronizer =
  leaves :: "leaf list"
  registry :: "(nat \<times> nat) list"
  feesCollected :: "nat \<Rightarrow> nat"
  exitTrees :: "(nat \<times> leaf list) list"
  lastBatch :: nat

text \<open>
  Modelled from the spec: \<^verbatim>\<open>consolidate(batch)\<close> (consolidation protocol; the code is
  missing), in the order of the spec: (1) the batch's entries become the registry,
  (2) the records are applied in order, (3) the root of the new leaves must be the root
  committed on-chain, RootMismatch otherwise, (4) if an exit occurred the exit tree is
  kept under the batch number, (5) the cursor advances. Nothing of a failed batch is
  kept. The function \<open>H\<close> that maps the leaves to their root (the hash of the sparse
  Merkle tree) is a parameter.
\<close>

definition consolidate ::
  "(leaf list \<Rightarrow> nat) \<Rightarrow> synchronizer \<Rightarrow> batch \<Rightarrow> sync_error + synchronizer" where
  "consolidate H s b =
     (let reg = coins b in
      case applyTxs reg \<lparr>bsLeaves = leaves s, bsExits = [], bsFees = (\<lambda>c. 0)\<rparr> (transactions b) of
        Inl e \<Rightarrow> Inl e
      | Inr st \<Rightarrow>
          if H (bsLeaves st) \<noteq> newRoot b then Inl RootMismatch
          else Inr \<lparr>leaves = bsLeaves st, registry = reg, feesCollected = bsFees st,
                    exitTrees = (if bsExits st = [] then exitTrees s
                                 else (batchNumber b, bsExits st) # exitTrees s),
                    lastBatch = batchNumber b\<rparr>)"

text \<open>
  Modelled from the spec: \<^verbatim>\<open>getStateByAccount(coin, Ax, Ay)\<close> (query layer, missing code):
  the leaf of the identity, or nothing for an identity without a leaf.
\<close>

definition getStateByAccount :: "synchronizer \<Rightarrow> nat \<Rightarrow> nat \<Rightarrow> nat \<Rightarrow> leaf option" where
  "getStateByAccount s c x y =
     (case findAccount (leaves s) c x y of None \<Rightarrow> None | Some i \<Rightarrow> Some (leaves s ! i))"

text \<open>
  Modelled from the spec: \<^verbatim>\<open>getExitBatches\<close>, in the test \<^verbatim>\<open>getExitsBatchById\<close> (query
  layer, missing code): the numbers of the batches in which the identity exited.
\<close>

definition getExitsBatchById :: "synchronizer \<Rightarrow> nat \<Rightarrow> nat \<Rightarrow> nat \<Rightarrow> nat list" where
  "getExitsBatchById s c x y =
     map fst (filter (\<lambda>(n, ex). findAccount ex c x y \<noteq> None) (exitTrees s))"

text \<open>
  Modelled from the spec: the answer of \<^verbatim>\<open>getExitProof\<close>, in the test \<^verbatim>\<open>getExitTreeInfo\<close>
  (query layer, missing code): whether the batch's exit tree has a leaf of the identity,
  and the leaf. The Merkle path of the answer is not modelled.
\<close>

record exit_info =
  found :: bool
  state :: "leaf option"

definition getExitTreeInfo :: "synchronizer \<Rightarrow> nat \<Rightarrow> nat \<Rightarrow> nat \<Rightarrow> nat \<Rightarrow> exit_info" where
  "getExitTreeInfo s n c x y =
     (case map_of (exitTrees s) n of
        None \<Rightarrow> \<lparr>found = False, state = None\<rparr>
      | Some ex \<Rightarrow>
          (case findAccount ex c x y of
             None \<Rightarrow> \<lparr>found = False, state = None\<rparr>
           | Some k \<Rightarrow> \<lparr>found = True, state = Some (ex ! k)\<rparr>))"

subsection \<open>The accounts and two batches of the test\<close>

text \<open>
  The five accounts of the test with a balance each, in units instead of \<open>10^18\<close>, and a
  stand-in for the root function. \<open>synchBatch8\<close> is the state after batch 8 (balances 4,
  11, 10, 0, 3; account 1 has withdrawn 2 in batch 8); batch 9 withdraws 2 from account
  4; batch 10 registers the fee 5 for coin 0 and transfers 5 from account 1 to account 3
  with a user fee of 5.
\<close>

definition rollupAccount :: "nat \<Rightarrow> nat \<Rightarrow> leaf" where
  "rollupAccount i a =
     \<lparr>coin = 0, ax = 2 * i + 1, ay = 2 * i + 2, ethAddress = 100 + i, amount = a, nonce = 0\<rparr>"

definition exampleRoot :: "leaf list \<Rightarrow> nat" where
  "exampleRoot t = foldr (\<lambda>l h. amount l + 31 * h) t 7"

definition synchBatch8 :: synchronizer where
  "synchBatch8 =
     \<lparr>leaves = [rollupAccount 0 4, rollupAccount 1 11, rollupAccount 2 10, rollupAccount 3 0,
                rollupAccount 4 3],
      registry = [], feesCollected = (\<lambda>c. 0),
      exitTrees = [(8, [rollupAccount 1 2])], lastBatch = 8\<rparr>"

definition withdraw4 :: tx where
  "withdraw4 =
     \<lparr>fromAx = 9, fromAy = 10, fromEthAddr = 104, toAx = exitAx, toAy = exitAy,
      toEthAddr = exitEthAddr, txCoin = 0, txAmount = 2, txNonce = 0, userFee = 0,
      onChain = False\<rparr>"

definition batch9 :: batch where
  "batch9 =
     \<lparr>batchNumber = 9, transactions = [withdraw4], coins = [],
      newRoot = exampleRoot [rollupAccount 0 4, rollupAccount 1 11, rollupAccount 2 10,
                  rollupAccount 3 0, rollupAccount 4 1]\<rparr>"

definition synchBatch9 :: synchronizer where
  "synchBatch9 =
     \<lparr>leaves = [rollupAccount 0 4, rollupAccount 1 11, rollupAccount 2 10, rollupAccount 3 0,
                rollupAccount 4 1],
      registry = [], feesCollected = (\<lambda>c. 0),
      exitTrees = [(9, [rollupAccount 4 2]), (8, [rollupAccount 1 2])], lastBatch = 9\<rparr>"

definition feeTransfer :: tx where
  "feeTransfer =
     \<lparr>fromAx = 3, fromAy = 4, fromEthAddr = 101, toAx = 7, toAy = 8, toEthAddr = 103,
      txCoin = 0, txAmount = 5, txNonce = 0, userFee = 5, onChain = False\<rparr>"

definition batch10 :: batch where
  "batch10 =
     \<lparr>batchNumber = 10, transactions = [feeTransfer], coins = [(0, 5)],
      newRoot = exampleRoot [rollupAccount 0 4, rollupAccount 1 1, rollupAccount 2 10,
                  rollupAccount 3 5, rollupAccount 4 1]\<rparr>"

definition synchBatch10 :: synchronizer where
  "synchBatch10 =
     \<lparr>leaves = [rollupAccount 0 4, rollupAccount 1 1, rollupAccount 2 10, rollupAccount 3 5,
                rollupAccount 4 1],
      registry = [(0, 5)], feesCollected = (\<lambda>c. 0)(0 := 5),
      exitTrees = [(9, [rollupAccount 4 2]), (8, [rollupAccount 1 2])], lastBatch = 10\<rparr>"

section \<open>Properties of the operator manager\<close>

subsection \<open>Decimal strings read back as the integer they print\<close>

lemma digit_cases: "d < 10 \<Longrightarrow> d \<in> {0,1,2,3,4,5,6,7,8,9::nat}"
  by auto

lemma digitVal_digitChar: "d < 10 \<Longrightarrow> digitVal (digitChar d) = Some d"
  using digit_cases [of d] by (auto simp: digitChar_def digitVal_def)

lemma digitChar_plain:
  "d < 10 \<Longrightarrow> 33 \<le> (of_char (digitChar d) :: nat) \<and> (of_char (digitChar d) :: nat) \<le> 126
     \<and> digitChar d \<notin> set ''xXoObB+-''"
  using digit_cases [of d] by (auto simp: digitChar_def)

lemma digits_nonempty: "digits n \<noteq> []"
  by (subst digits.simps) simp

lemma digits_chars: "c \<in> set (digits n) \<Longrightarrow> \<exists>d<10. c = digitChar d"
proof (induction n rule: digits.induct)
  case (1 n)
  show ?case
  proof (cases "n < 10")
    case True
    with "1.prems" show ?thesis by (subst (asm) digits.simps) auto
  next
    case False
    with "1.prems" have "c \<in> set (digits (n div 10)) \<or> c = digitChar (n mod 10)"
      by (subst (asm) digits.simps) auto
    then show ?thesis
    proof
      assume "c \<in> set (digits (n div 10))"
      with False "1.IH" show ?thesis by blast
    next
      assume "c = digitChar (n mod 10)"
      moreover have "n mod 10 < 10" by simp
      ultimately show ?thesis by blast
    qed
  qed
qed

lemma digits_plain:
  "c \<in> set (digits n) \<Longrightarrow>
     33 \<le> (of_char c :: nat) \<and> (of_char c :: nat) \<le> 126 \<and> c \<notin> set ''xXoObB+-''"
  using digits_chars digitChar_plain by blast

text \<open>No white space character begins or ends with a printable ASCII byte.\<close>

lemma whiteSpace_first:
  "p \<in> set whiteSpaceChars \<Longrightarrow>
     p \<noteq> [] \<and> \<not> (33 \<le> (of_char (hd p) :: nat) \<and> (of_char (hd p) :: nat) \<le> 126)"
  by (auto simp: whiteSpaceChars_def)

lemma whiteSpace_last:
  "p \<in> set (map rev whiteSpaceChars) \<Longrightarrow>
     p \<noteq> [] \<and> \<not> (33 \<le> (of_char (hd p) :: nat) \<and> (of_char (hd p) :: nat) \<le> 126)"
  by (auto simp: whiteSpaceChars_def)

lemma matchLen_none:
  assumes "\<And>p. p \<in> set ps \<Longrightarrow> p \<noteq> [] \<and> hd p \<noteq> c"
  shows "matchLen ps (c # cs) = 0"
proof -
  have "\<not> (\<exists>p\<in>set ps. take (length p) (c # cs) = p)"
  proof
    assume "\<exists>p\<in>set ps. take (length p) (c # cs) = p"
    then obtain p where p: "p \<in> set ps" and t: "take (length p) (c # cs) = p"
      by (rule bexE)
    from assms [OF p] obtain a q where "p = a # q" "a \<noteq> c"
      by (cases p) auto
    with t show False by simp
  qed
  then have "find (\<lambda>p. take (length p) (c # cs) = p) ps = None"
    by (simp add: find_None_iff)
  then show ?thesis by (simp add: matchLen_def)
qed

lemma stripAll_plain:
  assumes "\<And>p. p \<in> set ps \<Longrightarrow> p \<noteq> [] \<and> hd p \<noteq> c"
  shows "stripAll ps (c # cs) = c # cs"
  using matchLen_none [OF assms] by simp

lemma trim_plain:
  assumes "s \<noteq> []"
    and "33 \<le> (of_char (hd s) :: nat) \<and> (of_char (hd s) :: nat) \<le> 126"
    and "33 \<le> (of_char (last s) :: nat) \<and> (of_char (last s) :: nat) \<le> 126"
  shows "trim s = s"
proof -
  from assms(1) obtain c cs where s: "s = c # cs" by (cases s) auto
  have a: "stripAll whiteSpaceChars s = s"
    unfolding s
  proof (rule stripAll_plain)
    fix p assume "p \<in> set whiteSpaceChars"
    from whiteSpace_first [OF this] assms(2) show "p \<noteq> [] \<and> hd p \<noteq> c"
      unfolding s by auto
  qed
  from assms(1) obtain d ds where r: "rev s = d # ds" by (cases "rev s") auto
  then have d: "d = last s" using assms(1) by (simp add: last_rev [symmetric] del: last_rev)
  have b: "stripAll (map rev whiteSpaceChars) (rev s) = rev s"
    unfolding r
  proof (rule stripAll_plain)
    fix p assume "p \<in> set (map rev whiteSpaceChars)"
    from whiteSpace_last [OF this] assms(3) show "p \<noteq> [] \<and> hd p \<noteq> d"
      unfolding d by auto
  qed
  show ?thesis by (simp add: trim_def a b)
qed

lemma parseDigits_append:
  "parseDigits b (xs @ ys) acc =
     (case parseDigits b xs acc of None \<Rightarrow> None | Some a \<Rightarrow> parseDigits b ys a)"
  by (induction xs arbitrary: acc) (auto split: option.splits)

lemma parseDigits_digits: "\<exists>k. parseDigits 10 (digits n) acc = Some (acc * 10 ^ k + n)"
proof (induction n arbitrary: acc rule: digits.induct)
  case (1 n)
  show ?case
  proof (cases "n < 10")
    case True
    then have "parseDigits 10 (digits n) acc = Some (acc * 10 ^ 1 + n)"
      by (subst digits.simps) (simp add: digitVal_digitChar)
    then show ?thesis by blast
  next
    case False
    from 1 [OF False] obtain k where k: "parseDigits 10 (digits (n div 10)) acc = Some (acc * 10 ^ k + n div 10)"
      by blast
    have "parseDigits 10 (digits n) acc = Some (acc * 10 ^ Suc k + n)"
      using False k by (subst digits.simps) (simp add: parseDigits_append digitVal_digitChar algebra_simps)
    then show ?thesis by blast
  qed
qed

lemma parseNat_digits: "parseNat 10 (digits n) = Some n"
  using parseDigits_digits [of n 0] by (simp add: parseNat_def digits_nonempty)

lemma take2_snd: "take 2 s = [a, b] \<Longrightarrow> b \<in> set s"
proof -
  assume "take 2 s = [a, b]"
  then have "b \<in> set (take 2 s)" by simp
  then show ?thesis by (rule in_set_takeD)
qed

lemma StringToBigInt_digits: "StringToBigInt (digits n) = Some (int n)"
proof -
  let ?s = "digits n"
  have ne: "?s \<noteq> []" by (rule digits_nonempty)
  then have hd: "hd ?s \<in> set ?s" and la: "last ?s \<in> set ?s" by simp_all
  have h1: "33 \<le> (of_char (hd ?s) :: nat) \<and> (of_char (hd ?s) :: nat) \<le> 126"
    using digits_plain [OF hd] by simp
  have h2: "33 \<le> (of_char (last ?s) :: nat) \<and> (of_char (last ?s) :: nat) \<le> 126"
    using digits_plain [OF la] by simp
  have t: "trim ?s = ?s"
    using ne h1 h2 by (rule trim_plain)
  have nopre: "take 2 ?s \<noteq> [a, b]" if "b \<in> set ''xXoObB''" for a b
  proof
    assume "take 2 ?s = [a, b]"
    then have "b \<in> set ?s" by (rule take2_snd)
    then have "b \<notin> set ''xXoObB+-''" using digits_plain by blast
    with that show False by simp
  qed
  have sign: "hd ?s \<noteq> CHR ''-''" "hd ?s \<noteq> CHR ''+''"
    using digits_plain [OF hd] by auto
  have pre: "take 2 ?s \<noteq> ''0x''" "take 2 ?s \<noteq> ''0X''" "take 2 ?s \<noteq> ''0o''"
    "take 2 ?s \<noteq> ''0O''" "take 2 ?s \<noteq> ''0b''" "take 2 ?s \<noteq> ''0B''"
    by (rule nopre, simp)+
  show ?thesis
    unfolding StringToBigInt_def t Let_def
    using ne sign pre by (simp add: parseNat_digits)
qed

lemma StringToBigInt_neg_digits: "StringToBigInt (CHR ''-'' # digits n) = Some (- int n)"
proof -
  let ?s = "CHR ''-'' # digits n"
  have ne: "digits n \<noteq> []" by (rule digits_nonempty)
  then have la: "last ?s \<in> set (digits n)" by simp
  have h0: "?s \<noteq> []" by simp
  have h1: "33 \<le> (of_char (hd ?s) :: nat) \<and> (of_char (hd ?s) :: nat) \<le> 126"
    by simp
  have h2: "33 \<le> (of_char (last ?s) :: nat) \<and> (of_char (last ?s) :: nat) \<le> 126"
    using digits_plain [OF la] by simp
  have t: "trim ?s = ?s"
    using h0 h1 h2 by (rule trim_plain)
  show ?thesis
    unfolding StringToBigInt_def t Let_def by (simp add: parseNat_digits)
qed

lemma StringToBigInt_toString: "StringToBigInt (toString i) = Some i"
  by (simp add: toString_def StringToBigInt_digits StringToBigInt_neg_digits)

lemma BigInt_toString: "BigInt (JString (toString i)) = Inr i"
  by (simp add: BigInt_def StringToBigInt_toString)

lemma toString_decimal: "set (toString i) \<subseteq> set ''-0123456789''"
proof -
  have "c \<in> set ''0123456789''" if "c \<in> set (digits n)" for c n
  proof -
    from digits_chars [OF that] obtain d where "d < 10" "c = digitChar d" by blast
    then show ?thesis using digit_cases [of d] by (auto simp: digitChar_def)
  qed
  then have d: "set (digits n) \<subseteq> set ''0123456789''" for n
    by (rule subsetI)
  have e: "set ''-0123456789'' = insert CHR ''-'' (set ''0123456789'')"
    by (simp only: list.set)
  show ?thesis
  proof (cases "i < 0")
    case True
    then have "set (toString i) = insert CHR ''-'' (set (digits (nat (- i))))"
      by (simp only: toString_def if_True list.set)
    then show ?thesis
      unfolding e using d by (simp only: insert_mono)
  next
    case False
    then have "set (toString i) = set (digits (nat i))"
      by (simp only: toString_def if_False)
    then show ?thesis
      unfolding e using d by (simp only: subset_insertI2)
  qed
qed

subsection \<open>When a builder returns\<close>

lemma await_Inr: "await p k = Inr r \<longleftrightarrow> (\<exists>x. p = Inr x \<and> k x = Inr r)"
  by (cases p) (simp_all add: await_def)

lemma await_simps: "await (Inr x) k = k x" "await (Inl e) k = Inl e"
  by (simp_all add: await_def)

lemma await_Inl:
  "await p k = Inl e \<longleftrightarrow> p = Inl e \<or> (\<exists>x. p = Inr x \<and> k x = Inl e)"
  by (cases p) (simp_all add: await_def)

lemma constructor_Inr:
  "constructor W n a abi wl gm gl = Inr this \<longleftrightarrow>
     (\<exists>w' g. W n = Inr w' \<and> eth_Contract w' abi a = Inr () \<and> BigInt gm = Inr g \<and>
        this = \<lparr>wallet = wl, nodeUrl = n, posAddress = a, gasMul = g,
                gasLimit = (if gl = JString ''default'' then JNumber (2 * 616240) else gl)\<rparr>)"
  by (auto simp: constructor_def await_Inr)

text \<open>
  Construction fails with the error of the first statement that throws: the creation of
  the instance, the creation of the contract handle, or \<^verbatim>\<open>BigInt(gasMul)\<close>.
\<close>

lemma constructor_Inl:
  "constructor W n a abi wl gm gl = Inl e \<longleftrightarrow>
     W n = Inl e \<or>
     (\<exists>w'. W n = Inr w' \<and>
        (eth_Contract w' abi a = Inl e \<or> (eth_Contract w' abi a = Inr () \<and> BigInt gm = Inl e)))"
  by (auto simp: constructor_def await_Inl)

lemma getGasPrice_Inr:
  "getGasPrice this w = Inr gp \<longleftrightarrow>
     (\<exists>s p. eth_getGasPrice w = Inr s \<and> BigInt (JString s) = Inr p \<and>
        gp = toString (p * gasMul this))"
  by (auto simp: getGasPrice_def await_Inr)

lemma getTxRegister_Inr:
  "getTxRegister this w rh sv url = Inr sg \<longleftrightarrow>
     (\<exists>gp v d. getGasPrice this w = Inr gp \<and> toWeiHex w sv = Inr v \<and>
        encodeABI w (AddOperator rh url) = Inr d \<and>
        signTransaction this w (builtTx this gp (Some v) d) = Inr sg)"
  by (simp add: getTxRegister_def await_Inr)

lemma getTxUnregister_Inr:
  "getTxUnregister this w opId = Inr sg \<longleftrightarrow>
     (\<exists>gp d. getGasPrice this w = Inr gp \<and> encodeABI w (RemoveOperator opId) = Inr d \<and>
        signTransaction this w (builtTx this gp None d) = Inr sg)"
  by (simp add: getTxUnregister_def await_Inr)

lemma getTxWithdraw_Inr:
  "getTxWithdraw this w opId = Inr sg \<longleftrightarrow>
     (\<exists>gp d. getGasPrice this w = Inr gp \<and> encodeABI w (Withdraw opId) = Inr d \<and>
        signTransaction this w (builtTx this gp None d) = Inr sg)"
  by (simp add: getTxWithdraw_def await_Inr)

lemma getTxCommit_Inr:
  "getTxCommit this w ph ct = Inr sg \<longleftrightarrow>
     (\<exists>gp d. getGasPrice this w = Inr gp \<and> encodeABI w (CommitBatch ph ct) = Inr d \<and>
        signTransaction this w (builtTx this gp None d) = Inr sg)"
  by (simp add: getTxCommit_def await_Inr)

lemma getTxForge_Inr:
  "getTxForge this w pa pb pc inp = Inr sg \<longleftrightarrow>
     (\<exists>gp d. getGasPrice this w = Inr gp \<and>
        encodeABI w (ForgeCommittedBatch pa pb pc inp) = Inr d \<and>
        signTransaction this w (builtTx this gp None d) = Inr sg)"
  by (simp add: getTxForge_def await_Inr)

lemma getTxCommitAndForge_Inr:
  "getTxCommitAndForge this w ph ct pa pb pc inp = Inr r \<longleftrightarrow>
     (\<exists>gp d. getGasPrice this w = Inr gp \<and>
        encodeABI w (CommitAndForge ph ct pa pb pc inp) = Inr d \<and>
        snd r = builtTx this gp None d \<and>
        signTransaction this w (snd r) = Inr (fst r))"
  by (cases r) (auto simp: getTxCommitAndForge_def await_Inr Let_def)

text \<open>
  Claim C8. For every manager, whatever its multiplier, and every average gas price that
  the node returns as a string \<open>strAvgGas\<close> denoting the integer \<open>avgGas\<close>:
  \<^verbatim>\<open>_getGasPrice\<close> returns the decimal string of the product \<open>avgGas * gasMul\<close>, an
  unbounded integer: a string of decimal digits after a minus sign at most, which read
  back gives the product itself (nothing is rounded or wraps). Each of the six builders is then what is left of it once the gas
  price is known: it encodes its call and signs the transaction whose gas price is that
  string, and fails only where the encoding or the signing does. The multiplier of a
  constructed manager is the integer that \<^verbatim>\<open>BigInt\<close> makes of the constructor's argument,
  and there is a manager whenever the three statements of the constructor that can throw
  do not.
\<close>

theorem getGasPrice_exact_product:
  assumes g: "eth_getGasPrice w = Inr strAvgGas"
    and b: "BigInt (JString strAvgGas) = Inr avgGas"
  shows "getGasPrice this w = Inr (toString (avgGas * gasMul this))
    \<and> set (toString (avgGas * gasMul this)) \<subseteq> set ''-0123456789''
    \<and> BigInt (JString (toString (avgGas * gasMul this))) = Inr (avgGas * gasMul this)
    \<and> getTxRegister this w rh sv url =
        await (toWeiHex w sv) (\<lambda>v.
        await (encodeABI w (AddOperator rh url)) (\<lambda>d.
          signTransaction this w
            (builtTx this (toString (avgGas * gasMul this)) (Some v) d)))
    \<and> getTxUnregister this w opId =
        await (encodeABI w (RemoveOperator opId)) (\<lambda>d.
          signTransaction this w (builtTx this (toString (avgGas * gasMul this)) None d))
    \<and> getTxWithdraw this w opId =
        await (encodeABI w (Withdraw opId)) (\<lambda>d.
          signTransaction this w (builtTx this (toString (avgGas * gasMul this)) None d))
    \<and> getTxCommit this w ph ct =
        await (encodeABI w (CommitBatch ph ct)) (\<lambda>d.
          signTransaction this w (builtTx this (toString (avgGas * gasMul this)) None d))
    \<and> getTxForge this w pa pb pc inp =
        await (encodeABI w (ForgeCommittedBatch pa pb pc inp)) (\<lambda>d.
          signTransaction this w (builtTx this (toString (avgGas * gasMul this)) None d))
    \<and> getTxCommitAndForge this w ph ct pa pb pc inp =
        await (encodeABI w (CommitAndForge ph ct pa pb pc inp)) (\<lambda>d.
        await (signTransaction this w
                 (builtTx this (toString (avgGas * gasMul this)) None d)) (\<lambda>txSign.
          Inr (txSign, builtTx this (toString (avgGas * gasMul this)) None d)))
    \<and> map_sum id gasMul (constructor W n a abi wl gm gl) =
        await (W n) (\<lambda>w'. await (eth_Contract w' abi a) (\<lambda>rollupPoS. BigInt gm))"
proof -
  let ?gp = "toString (avgGas * gasMul this)"
  have p: "getGasPrice this w = Inr ?gp"
    using g b by (simp add: getGasPrice_def await_simps)
  have r: "BigInt (JString ?gp) = Inr (avgGas * gasMul this)"
    by (rule BigInt_toString)
  have s: "set ?gp \<subseteq> set ''-0123456789''"
    by (rule toString_decimal)
  have r1: "getTxRegister this w rh sv url =
        await (toWeiHex w sv) (\<lambda>v.
        await (encodeABI w (AddOperator rh url)) (\<lambda>d.
          signTransaction this w (builtTx this ?gp (Some v) d)))"
    by (simp add: getTxRegister_def p await_simps)
  have r2: "getTxUnregister this w opId =
        await (encodeABI w (RemoveOperator opId)) (\<lambda>d.
          signTransaction this w (builtTx this ?gp None d))"
    by (simp add: getTxUnregister_def p await_simps)
  have r3: "getTxWithdraw this w opId =
        await (encodeABI w (Withdraw opId)) (\<lambda>d.
          signTransaction this w (builtTx this ?gp None d))"
    by (simp add: getTxWithdraw_def p await_simps)
  have r4: "getTxCommit this w ph ct =
        await (encodeABI w (CommitBatch ph ct)) (\<lambda>d.
          signTransaction this w (builtTx this ?gp None d))"
    by (simp add: getTxCommit_def p await_simps)
  have r5: "getTxForge this w pa pb pc inp =
        await (encodeABI w (ForgeCommittedBatch pa pb pc inp)) (\<lambda>d.
          signTransaction this w (builtTx this ?gp None d))"
    by (simp add: getTxForge_def p await_simps)
  have r6: "getTxCommitAndForge this w ph ct pa pb pc inp =
        await (encodeABI w (CommitAndForge ph ct pa pb pc inp)) (\<lambda>d.
        await (signTransaction this w (builtTx this ?gp None d)) (\<lambda>txSign.
          Inr (txSign, builtTx this ?gp None d)))"
    by (simp add: getTxCommitAndForge_def p await_simps Let_def)
  have m: "map_sum id gasMul (constructor W n a abi wl gm gl) =
        await (W n) (\<lambda>w'. await (eth_Contract w' abi a) (\<lambda>rollupPoS. BigInt gm))"
    by (simp add: constructor_def await_def split: sum.splits)
  show ?thesis
    by (intro conjI) (fact p s r r1 r2 r3 r4 r5 r6 m)+
qed

lemma toString_example: "toString 40000000000 = ''40000000000''"
  by (simp add: toString_def digits.simps digitChar_def)

lemma BigInt_example: "BigInt (JString ''20000000000'') = Inr 20000000000"
  using BigInt_toString [of 20000000000]
  by (simp add: toString_def digits.simps digitChar_def)

lemma example_contract: "eth_Contract exampleWeb3 ''[]'' examplePoS = Inr ()"
  by (simp add: exampleWeb3_def examplePoS_def parseNat_def digitVal_def)

lemma example_constructor:
  "constructor exampleModule ''http://localhost:8545'' examplePoS ''[]'' exampleWallet
      (JNumber 2) (JString ''default'') = Inr exampleManager"
  by (simp add: constructor_def exampleModule_def example_contract await_simps BigInt_def
      exampleManager_def)

text \<open>A multiplier of 1.5 is a Number that is not integral: no manager is constructed.\<close>

lemma BigInt_fraction: "BigInt (JNumber (3 / 2)) = Inl RangeError"
proof -
  have "\<lfloor>3 / 2 :: rat\<rfloor> = 1" by (simp add: floor_eq_iff)
  then show ?thesis by (simp add: BigInt_def)
qed

lemma example_fraction:
  "constructor exampleModule ''http://localhost:8545'' examplePoS ''[]'' exampleWallet
      (JNumber (3 / 2)) (JString ''default'') = Inl RangeError"
  by (simp add: constructor_def exampleModule_def example_contract await_simps
      BigInt_fraction)

text \<open>An address the contract handle cannot read: no manager is constructed either.\<close>

lemma example_bad_address:
  "constructor exampleModule ''http://localhost:8545'' ''0xpos'' ''[]'' exampleWallet
      (JNumber 2) (JString ''default'') = Inl (Rejected ''invalid address'')"
  by (simp add: constructor_def exampleModule_def exampleWeb3_def await_simps)

lemma example_fields:
  "address (wallet exampleManager) = ''0x627306090abaB3A6e1400e9345bC60c78a8BEf57''"
  "address exampleWallet = ''0x627306090abaB3A6e1400e9345bC60c78a8BEf57''"
  "posAddress exampleManager = ''0x8f0483125FCb9aaAEFA9209D8E9d7b9C8B9Fb90F''"
  "examplePoS = ''0x8f0483125FCb9aaAEFA9209D8E9d7b9C8B9Fb90F''"
  "gasLimit exampleManager = JNumber 1232480" "gasMul exampleManager = 2"
  by (simp_all add: exampleManager_def exampleWallet_def examplePoS_def)

lemma example_web3:
  "eth_getGasPrice exampleWeb3 = Inr ''20000000000''"
  "toWeiHex exampleWeb3 v = Inr ''0x1bc16d674ec80000''"
  "encodeABI exampleWeb3 (AddOperator rh url) = Inr ''addOperator''"
  "encodeABI exampleWeb3 (RemoveOperator i) = Inr ''removeOperator''"
  "encodeABI exampleWeb3 (Withdraw i) = Inr ''withdraw''"
  "encodeABI exampleWeb3 (CommitBatch ph ct) = Inr ''commitBatch''"
  "encodeABI exampleWeb3 (ForgeCommittedBatch pa pb pc inp) = Inr ''forgeCommittedBatch''"
  "encodeABI exampleWeb3 (CommitAndForge ph ct pa pb pc inp) = Inr ''commitAndForge''"
  "signTransaction exampleManager exampleWeb3 tx = Inr (tx, exampleKey)"
  by (simp_all add: signTransaction_def exampleWeb3_def exampleManager_def exampleWallet_def
      exampleKey_def)

lemma example_getGasPrice: "getGasPrice exampleManager exampleWeb3 = Inr ''40000000000''"
  by (simp add: getGasPrice_def await_simps example_web3 BigInt_example example_fields
      toString_example)

theorem getGasPrice_exact_product_witness:
  "eth_getGasPrice exampleWeb3 = Inr ''20000000000''
   \<and> BigInt (JString ''20000000000'') = Inr 20000000000
   \<and> getGasPrice exampleManager exampleWeb3 = Inr ''40000000000''
   \<and> getTxRegister exampleManager exampleWeb3 ''0xhash'' (JNumber 2) ''localhost'' =
       Inr (exampleTx (Some ''0x1bc16d674ec80000'') ''addOperator'', exampleKey)
   \<and> getTxUnregister exampleManager exampleWeb3 (JNumber 0) =
       Inr (exampleTx None ''removeOperator'', exampleKey)
   \<and> getTxWithdraw exampleManager exampleWeb3 (JNumber 0) =
       Inr (exampleTx None ''withdraw'', exampleKey)
   \<and> getTxCommit exampleManager exampleWeb3 ''0xhash'' ''0xtxs'' =
       Inr (exampleTx None ''commitBatch'', exampleKey)
   \<and> getTxForge exampleManager exampleWeb3 [''0'', ''0''] [[''0'', ''0''], [''0'', ''0'']]
        [''0'', ''0''] [''1''] =
       Inr (exampleTx None ''forgeCommittedBatch'', exampleKey)
   \<and> getTxCommitAndForge exampleManager exampleWeb3 ''0xhash'' ''0xtxs'' [''0'', ''0'']
        [[''0'', ''0''], [''0'', ''0'']] [''0'', ''0''] [''1''] =
       Inr ((exampleTx None ''commitAndForge'', exampleKey), exampleTx None ''commitAndForge'')
   \<and> map_sum id gasMul
        (constructor exampleModule ''http://localhost:8545'' examplePoS ''[]'' exampleWallet
           (JNumber 2) (JString ''default'')) = Inr 2"
proof -
  note g = example_web3(1) and b = BigInt_example
  note t = getGasPrice_exact_product [OF g b, where this = exampleManager
      and rh = "''0xhash''" and sv = "JNumber 2" and url = "''localhost''"
      and opId = "JNumber 0" and ph = "''0xhash''" and ct = "''0xtxs''"
      and pa = "[''0'', ''0'']" and pb = "[[''0'', ''0''], [''0'', ''0'']]"
      and pc = "[''0'', ''0'']" and inp = "[''1'']"
      and W = exampleModule and n = "''http://localhost:8545''" and a = examplePoS
      and abi = "''[]''" and wl = exampleWallet and gm = "JNumber 2"
      and gl = "JString ''default''"]
  have e: "builtTx exampleManager (toString (20000000000 * gasMul exampleManager)) v d =
      exampleTx v d" for v d
    by (simp add: example_fields toString_example exampleTx_def)
  have c: "await (exampleModule ''http://localhost:8545'')
      (\<lambda>w'. await (eth_Contract w' ''[]'' examplePoS) (\<lambda>rollupPoS. BigInt (JNumber 2))) = Inr 2"
    by (simp add: exampleModule_def example_contract await_simps BigInt_def)
  from t show ?thesis
    by (simp only: e c example_web3 await_simps g b)
      (simp add: example_fields toString_example)
qed

text \<open>
  Claim C9. The constructor, where none of its statements throws, gives the manager the
  gas limit 1232480 (2 * 616240) for the argument \<^verbatim>\<open>"default"\<close> and the argument itself
  for any other value. Each of the six builders of a manager so constructed is the
  signing of a transaction that carries this gas limit, between the wallet's address and
  the contract's: it fails only where the gas price, the encoding or the signing does.
\<close>

theorem gasLimit_default_or_given:
  "map_sum id gasLimit (constructor W n a abi wl gm gl) =
      await (W n) (\<lambda>w'.
      await (eth_Contract w' abi a) (\<lambda>rollupPoS.
      await (BigInt gm) (\<lambda>g.
        Inr (if gl = JString ''default'' then JNumber 1232480 else gl))))
   \<and> (constructor W n a abi wl gm gl = Inr this \<longrightarrow>
      gasLimit this = (if gl = JString ''default'' then JNumber 1232480 else gl)
    \<and> getTxRegister this w rh sv url =
          await (getGasPrice this w) (\<lambda>gp.
          await (toWeiHex w sv) (\<lambda>v.
          await (encodeABI w (AddOperator rh url)) (\<lambda>d.
            signTransaction this w
              \<lparr>txFrom = address wl, txTo = a,
                txGasLimit = (if gl = JString ''default'' then JNumber 1232480 else gl),
                txGasPrice = gp, txValue = Some v, txData = d\<rparr>)))
    \<and> getTxUnregister this w opId =
          await (getGasPrice this w) (\<lambda>gp.
          await (encodeABI w (RemoveOperator opId)) (\<lambda>d.
            signTransaction this w
              \<lparr>txFrom = address wl, txTo = a,
                txGasLimit = (if gl = JString ''default'' then JNumber 1232480 else gl),
                txGasPrice = gp, txValue = None, txData = d\<rparr>))
    \<and> getTxWithdraw this w opId =
          await (getGasPrice this w) (\<lambda>gp.
          await (encodeABI w (Withdraw opId)) (\<lambda>d.
            signTransaction this w
              \<lparr>txFrom = address wl, txTo = a,
                txGasLimit = (if gl = JString ''default'' then JNumber 1232480 else gl),
                txGasPrice = gp, txValue = None, txData = d\<rparr>))
    \<and> getTxCommit this w ph ct =
          await (getGasPrice this w) (\<lambda>gp.
          await (encodeABI w (CommitBatch ph ct)) (\<lambda>d.
            signTransaction this w
              \<lparr>txFrom = address wl, txTo = a,
                txGasLimit = (if gl = JString ''default'' then JNumber 1232480 else gl),
                txGasPrice = gp, txValue = None, txData = d\<rparr>))
    \<and> getTxForge this w pa pb pc inp =
          await (getGasPrice this w) (\<lambda>gp.
          await (encodeABI w (ForgeCommittedBatch pa pb pc inp)) (\<lambda>d.
            signTransaction this w
              \<lparr>txFrom = address wl, txTo = a,
                txGasLimit = (if gl = JString ''default'' then JNumber 1232480 else gl),
                txGasPrice = gp, txValue = None, txData = d\<rparr>))
    \<and> getTxCommitAndForge this w ph ct pa pb pc inp =
          await (getGasPrice this w) (\<lambda>gp.
          await (encodeABI w (CommitAndForge ph ct pa pb pc inp)) (\<lambda>d.
          await (signTransaction this w
              \<lparr>txFrom = address wl, txTo = a,
                txGasLimit = (if gl = JString ''default'' then JNumber 1232480 else gl),
                txGasPrice = gp, txValue = None, txData = d\<rparr>) (\<lambda>txSign.
            Inr (txSign,
              \<lparr>txFrom = address wl, txTo = a,
                txGasLimit = (if gl = JString ''default'' then JNumber 1232480 else gl),
                txGasPrice = gp, txValue = None, txData = d\<rparr>)))))"
proof -
  have m: "map_sum id gasLimit (constructor W n a abi wl gm gl) =
      await (W n) (\<lambda>w'.
      await (eth_Contract w' abi a) (\<lambda>rollupPoS.
      await (BigInt gm) (\<lambda>g.
        Inr (if gl = JString ''default'' then JNumber 1232480 else gl))))"
    by (simp add: constructor_def await_def split: sum.splits)
  have i: "gasLimit this = (if gl = JString ''default'' then JNumber 1232480 else gl)
    \<and> getTxRegister this w rh sv url =
          await (getGasPrice this w) (\<lambda>gp.
          await (toWeiHex w sv) (\<lambda>v.
          await (encodeABI w (AddOperator rh url)) (\<lambda>d.
            signTransaction this w
              \<lparr>txFrom = address wl, txTo = a,
                txGasLimit = (if gl = JString ''default'' then JNumber 1232480 else gl),
                txGasPrice = gp, txValue = Some v, txData = d\<rparr>)))
    \<and> getTxUnregister this w opId =
          await (getGasPrice this w) (\<lambda>gp.
          await (encodeABI w (RemoveOperator opId)) (\<lambda>d.
            signTransaction this w
              \<lparr>txFrom = address wl, txTo = a,
                txGasLimit = (if gl = JString ''default'' then JNumber 1232480 else gl),
                txGasPrice = gp, txValue = None, txData = d\<rparr>))
    \<and> getTxWithdraw this w opId =
          await (getGasPrice this w) (\<lambda>gp.
          await (encodeABI w (Withdraw opId)) (\<lambda>d.
            signTransaction this w
              \<lparr>txFrom = address wl, txTo = a,
                txGasLimit = (if gl = JString ''default'' then JNumber 1232480 else gl),
                txGasPrice = gp, txValue = None, txData = d\<rparr>))
    \<and> getTxCommit this w ph ct =
          await (getGasPrice this w) (\<lambda>gp.
          await (encodeABI w (CommitBatch ph ct)) (\<lambda>d.
            signTransaction this w
              \<lparr>txFrom = address wl, txTo = a,
                txGasLimit = (if gl = JString ''default'' then JNumber 1232480 else gl),
                txGasPrice = gp, txValue = None, txData = d\<rparr>))
    \<and> getTxForge this w pa pb pc inp =
          await (getGasPrice this w) (\<lambda>gp.
          await (encodeABI w (ForgeCommittedBatch pa pb pc inp)) (\<lambda>d.
            signTransaction this w
              \<lparr>txFrom = address wl, txTo = a,
                txGasLimit = (if gl = JString ''default'' then JNumber 1232480 else gl),
                txGasPrice = gp, txValue = None, txData = d\<rparr>))
    \<and> getTxCommitAndForge this w ph ct pa pb pc inp =
          await (getGasPrice this w) (\<lambda>gp.
          await (encodeABI w (CommitAndForge ph ct pa pb pc inp)) (\<lambda>d.
          await (signTransaction this w
              \<lparr>txFrom = address wl, txTo = a,
                txGasLimit = (if gl = JString ''default'' then JNumber 1232480 else gl),
                txGasPrice = gp, txValue = None, txData = d\<rparr>) (\<lambda>txSign.
            Inr (txSign,
              \<lparr>txFrom = address wl, txTo = a,
                txGasLimit = (if gl = JString ''default'' then JNumber 1232480 else gl),
                txGasPrice = gp, txValue = None, txData = d\<rparr>))))"
    if c: "constructor W n a abi wl gm gl = Inr this"
  proof -
    from c have f: "address (wallet this) = address wl" "posAddress this = a"
      "gasLimit this = (if gl = JString ''default'' then JNumber 1232480 else gl)"
      by (auto simp: constructor_Inr)
    have r1: "getTxRegister this w rh sv url =
          await (getGasPrice this w) (\<lambda>gp.
          await (toWeiHex w sv) (\<lambda>v.
          await (encodeABI w (AddOperator rh url)) (\<lambda>d.
            signTransaction this w
              \<lparr>txFrom = address wl, txTo = a,
                  txGasLimit = (if gl = JString ''default'' then JNumber 1232480 else gl),
                  txGasPrice = gp, txValue = Some v, txData = d\<rparr>)))"
      by (simp add: getTxRegister_def f)
    have r2: "getTxUnregister this w opId =
          await (getGasPrice this w) (\<lambda>gp.
          await (encodeABI w (RemoveOperator opId)) (\<lambda>d.
            signTransaction this w
              \<lparr>txFrom = address wl, txTo = a,
                  txGasLimit = (if gl = JString ''default'' then JNumber 1232480 else gl),
                  txGasPrice = gp, txValue = None, txData = d\<rparr>))"
      by (simp add: getTxUnregister_def f)
    have r3: "getTxWithdraw this w opId =
          await (getGasPrice this w) (\<lambda>gp.
          await (encodeABI w (Withdraw opId)) (\<lambda>d.
            signTransaction this w
              \<lparr>txFrom = address wl, txTo = a,
                  txGasLimit = (if gl = JString ''default'' then JNumber 1232480 else gl),
                  txGasPrice = gp, txValue = None, txData = d\<rparr>))"
      by (simp add: getTxWithdraw_def f)
    have r4: "getTxCommit this w ph ct =
          await (getGasPrice this w) (\<lambda>gp.
          await (encodeABI w (CommitBatch ph ct)) (\<lambda>d.
            signTransaction this w
              \<lparr>txFrom = address wl, txTo = a,
                  txGasLimit = (if gl = JString ''default'' then JNumber 1232480 else gl),
                  txGasPrice = gp, txValue = None, txData = d\<rparr>))"
      by (simp add: getTxCommit_def f)
    have r5: "getTxForge this w pa pb pc inp =
          await (getGasPrice this w) (\<lambda>gp.
          await (encodeABI w (ForgeCommittedBatch pa pb pc inp)) (\<lambda>d.
            signTransaction this w
              \<lparr>txFrom = address wl, txTo = a,
                  txGasLimit = (if gl = JString ''default'' then JNumber 1232480 else gl),
                  txGasPrice = gp, txValue = None, txData = d\<rparr>))"
      by (simp add: getTxForge_def f)
    have r6: "getTxCommitAndForge this w ph ct pa pb pc inp =
          await (getGasPrice this w) (\<lambda>gp.
          await (encodeABI w (CommitAndForge ph ct pa pb pc inp)) (\<lambda>d.
          await (signTransaction this w
              \<lparr>txFrom = address wl, txTo = a,
                  txGasLimit = (if gl = JString ''default'' then JNumber 1232480 else gl),
                  txGasPrice = gp, txValue = None, txData = d\<rparr>) (\<lambda>txSign.
            Inr (txSign,
              \<lparr>txFrom = address wl, txTo = a,
                  txGasLimit = (if gl = JString ''default'' then JNumber 1232480 else gl),
                  txGasPrice = gp, txValue = None, txData = d\<rparr>))))"
      by (simp add: getTxCommitAndForge_def f Let_def)
    show ?thesis
      by (intro conjI) (fact f(3) r1 r2 r3 r4 r5 r6)+
  qed
  show ?thesis
    using m i by blast
qed

theorem gasLimit_default_or_given_witness:
  "map_sum id gasLimit
      (constructor exampleModule ''http://localhost:8545'' examplePoS ''[]'' exampleWallet
         (JNumber 2) (JString ''default'')) = Inr (JNumber 1232480)
   \<and> map_sum id gasLimit
      (constructor exampleModule ''http://localhost:8545'' examplePoS ''[]'' exampleWallet
         (JNumber 2) (JNumber 21000)) = Inr (JNumber 21000)
   \<and> constructor exampleModule ''http://localhost:8545'' examplePoS ''[]'' exampleWallet
      (JNumber 2) (JString ''default'') = Inr exampleManager
   \<and> gasLimit exampleManager = JNumber 1232480
   \<and> getTxRegister exampleManager exampleWeb3 ''0xhash'' (JNumber 2) ''localhost'' =
       Inr (exampleTx (Some ''0x1bc16d674ec80000'') ''addOperator'', exampleKey)
   \<and> getTxUnregister exampleManager exampleWeb3 (JNumber 0) =
       Inr (exampleTx None ''removeOperator'', exampleKey)
   \<and> getTxWithdraw exampleManager exampleWeb3 (JNumber 0) =
       Inr (exampleTx None ''withdraw'', exampleKey)
   \<and> getTxCommit exampleManager exampleWeb3 ''0xhash'' ''0xtxs'' =
       Inr (exampleTx None ''commitBatch'', exampleKey)
   \<and> getTxForge exampleManager exampleWeb3 [''0'', ''0''] [[''0'', ''0''], [''0'', ''0'']]
        [''0'', ''0''] [''1''] =
       Inr (exampleTx None ''forgeCommittedBatch'', exampleKey)
   \<and> getTxCommitAndForge exampleManager exampleWeb3 ''0xhash'' ''0xtxs'' [''0'', ''0'']
        [[''0'', ''0''], [''0'', ''0'']] [''0'', ''0''] [''1''] =
       Inr ((exampleTx None ''commitAndForge'', exampleKey), exampleTx None ''commitAndForge'')"
proof -
  note t = gasLimit_default_or_given [where W = exampleModule and n = "''http://localhost:8545''"
      and a = examplePoS and abi = "''[]''" and wl = exampleWallet and gm = "JNumber 2"
      and gl = "JString ''default''" and this = exampleManager and w = exampleWeb3
      and rh = "''0xhash''" and sv = "JNumber 2" and url = "''localhost''"
      and opId = "JNumber 0" and ph = "''0xhash''" and ct = "''0xtxs''"
      and pa = "[''0'', ''0'']" and pb = "[[''0'', ''0''], [''0'', ''0'']]"
      and pc = "[''0'', ''0'']" and inp = "[''1'']"]
  note t' = gasLimit_default_or_given [where W = exampleModule and n = "''http://localhost:8545''"
      and a = examplePoS and abi = "''[]''" and wl = exampleWallet and gm = "JNumber 2"
      and gl = "JNumber 21000", THEN conjunct1]
  have c: "await (exampleModule ''http://localhost:8545'')
      (\<lambda>w'. await (eth_Contract w' ''[]'' examplePoS)
         (\<lambda>rollupPoS. await (BigInt (JNumber 2)) k)) = k 2" for k :: "int \<Rightarrow> error + js_value"
    by (simp add: exampleModule_def example_contract await_simps BigInt_def)
  have e: "\<lparr>txFrom = address exampleWallet, txTo = examplePoS, txGasLimit = JNumber 1232480,
      txGasPrice = ''40000000000'', txValue = v, txData = d\<rparr> = exampleTx v d" for v d
    by (simp add: example_fields exampleTx_def)
  have m1: "map_sum id gasLimit
      (constructor exampleModule ''http://localhost:8545'' examplePoS ''[]'' exampleWallet
         (JNumber 2) (JString ''default'')) = Inr (JNumber 1232480)"
    using t [THEN conjunct1] by (simp add: c)
  have m2: "map_sum id gasLimit
      (constructor exampleModule ''http://localhost:8545'' examplePoS ''[]'' exampleWallet
         (JNumber 2) (JNumber 21000)) = Inr (JNumber 21000)"
    using t' by (simp add: c)
  note b = t [THEN conjunct2, THEN mp, OF example_constructor]
  from b have "gasLimit exampleManager = JNumber 1232480
   \<and> getTxRegister exampleManager exampleWeb3 ''0xhash'' (JNumber 2) ''localhost'' =
       Inr (exampleTx (Some ''0x1bc16d674ec80000'') ''addOperator'', exampleKey)
   \<and> getTxUnregister exampleManager exampleWeb3 (JNumber 0) =
       Inr (exampleTx None ''removeOperator'', exampleKey)
   \<and> getTxWithdraw exampleManager exampleWeb3 (JNumber 0) =
       Inr (exampleTx None ''withdraw'', exampleKey)
   \<and> getTxCommit exampleManager exampleWeb3 ''0xhash'' ''0xtxs'' =
       Inr (exampleTx None ''commitBatch'', exampleKey)
   \<and> getTxForge exampleManager exampleWeb3 [''0'', ''0''] [[''0'', ''0''], [''0'', ''0'']]
        [''0'', ''0''] [''1''] =
       Inr (exampleTx None ''forgeCommittedBatch'', exampleKey)
   \<and> getTxCommitAndForge exampleManager exampleWeb3 ''0xhash'' ''0xtxs'' [''0'', ''0'']
        [[''0'', ''0''], [''0'', ''0'']] [''0'', ''0''] [''1''] =
       Inr ((exampleTx None ''commitAndForge'', exampleKey), exampleTx None ''commitAndForge'')"
    by (simp add: example_getGasPrice example_web3 await_simps e)
  with m1 m2 example_constructor show ?thesis
    by (intro conjI) simp_all
qed

text \<open>
  Claim C10. \<^verbatim>\<open>getTxCommitAndForge\<close> returns the pair of the signed transaction and
  the raw transaction that was signed; the five other builders return the signed
  transaction alone.
\<close>

theorem commitAndForge_returns_pair:
  "(getTxCommitAndForge this w ph ct pa pb pc inp = Inr r \<longleftrightarrow>
      (\<exists>gp d. getGasPrice this w = Inr gp \<and>
         encodeABI w (CommitAndForge ph ct pa pb pc inp) = Inr d \<and>
         r = (fst r, builtTx this gp None d) \<and>
         signTransaction this w (builtTx this gp None d) = Inr (fst r)))
   \<and> (getTxRegister this w rh sv url = Inr sg1 \<longleftrightarrow>
      (\<exists>gp v d. getGasPrice this w = Inr gp \<and> toWeiHex w sv = Inr v \<and>
         encodeABI w (AddOperator rh url) = Inr d \<and>
         signTransaction this w (builtTx this gp (Some v) d) = Inr sg1))
   \<and> (getTxUnregister this w opId = Inr sg2 \<longleftrightarrow>
      (\<exists>gp d. getGasPrice this w = Inr gp \<and> encodeABI w (RemoveOperator opId) = Inr d \<and>
         signTransaction this w (builtTx this gp None d) = Inr sg2))
   \<and> (getTxWithdraw this w opId' = Inr sg3 \<longleftrightarrow>
      (\<exists>gp d. getGasPrice this w = Inr gp \<and> encodeABI w (Withdraw opId') = Inr d \<and>
         signTransaction this w (builtTx this gp None d) = Inr sg3))
   \<and> (getTxCommit this w ph' ct' = Inr sg4 \<longleftrightarrow>
      (\<exists>gp d. getGasPrice this w = Inr gp \<and> encodeABI w (CommitBatch ph' ct') = Inr d \<and>
         signTransaction this w (builtTx this gp None d) = Inr sg4))
   \<and> (getTxForge this w pa' pb' pc' inp' = Inr sg5 \<longleftrightarrow>
      (\<exists>gp d. getGasPrice this w = Inr gp \<and>
         encodeABI w (ForgeCommittedBatch pa' pb' pc' inp') = Inr d \<and>
         signTransaction this w (builtTx this gp None d) = Inr sg5))"
proof -
  have "getTxCommitAndForge this w ph ct pa pb pc inp = Inr r \<longleftrightarrow>
      (\<exists>gp d. getGasPrice this w = Inr gp \<and>
         encodeABI w (CommitAndForge ph ct pa pb pc inp) = Inr d \<and>
         r = (fst r, builtTx this gp None d) \<and>
         signTransaction this w (builtTx this gp None d) = Inr (fst r))"
    unfolding getTxCommitAndForge_Inr by (cases r) auto
  then show ?thesis
    by (simp only: getTxRegister_Inr getTxUnregister_Inr getTxWithdraw_Inr getTxCommit_Inr
        getTxForge_Inr simp_thms)
qed

theorem commitAndForge_returns_pair_witness:
  "getTxCommitAndForge exampleManager exampleWeb3 ''0xhash'' ''0xtxs'' [''0'', ''0'']
      [[''0'', ''0''], [''0'', ''0'']] [''0'', ''0''] [''1''] =
     Inr ((exampleTx None ''commitAndForge'', exampleKey), exampleTx None ''commitAndForge'')
   \<and> getTxCommit exampleManager exampleWeb3 ''0xhash'' ''0xtxs'' =
     Inr (exampleTx None ''commitBatch'', exampleKey)"
proof -
  note t = commitAndForge_returns_pair [where this = exampleManager and w = exampleWeb3]
  have e: "builtTx exampleManager ''40000000000'' v d = exampleTx v d" for v d
    by (simp add: example_fields exampleTx_def)
  show ?thesis
    by (simp only: t) (simp add: example_getGasPrice example_web3 e)
qed

section \<open>Properties of the synchronizer\<close>

subsection \<open>Lookups and updates of the state tree\<close>

lemma findAccount_Some:
  "findAccount t c x y = Some i \<Longrightarrow>
     i < length t \<and> coin (t ! i) = c \<and> ax (t ! i) = x \<and> ay (t ! i) = y"
proof (induction t arbitrary: i)
  case Nil
  then show ?case by simp
next
  case (Cons l ls)
  show ?case
  proof (cases "coin l = c \<and> ax l = x \<and> ay l = y")
    case True
    with Cons.prems show ?thesis by auto
  next
    case False
    with Cons.prems obtain k where k: "findAccount ls c x y = Some k" "i = Suc k"
      by auto
    from Cons.IH [OF k(1)] k(2) show ?thesis by simp
  qed
qed

lemma findAccount_update:
  assumes "i < length t" "coin l' = coin (t ! i)" "ax l' = ax (t ! i)" "ay l' = ay (t ! i)"
  shows "findAccount (t[i := l']) c x y = findAccount t c x y"
  using assms
proof (induction t arbitrary: i)
  case Nil
  then show ?case by simp
next
  case (Cons l ls)
  show ?case
  proof (cases i)
    case 0
    with Cons.prems show ?thesis by simp
  next
    case (Suc k)
    with Cons.prems have "findAccount (ls[k := l']) c x y = findAccount ls c x y"
      by (intro Cons.IH) simp_all
    with Suc show ?thesis by simp
  qed
qed

lemma findAccount_distinct:
  assumes "findAccount t c x y = Some i" "findAccount t c x' y' = Some j" "(x, y) \<noteq> (x', y')"
  shows "i \<noteq> j"
  using findAccount_Some [OF assms(1)] findAccount_Some [OF assms(2)] assms(3) by auto

lemma getStateByAccount_Some:
  "getStateByAccount s c x y = Some l \<longleftrightarrow>
     (\<exists>i. findAccount (leaves s) c x y = Some i \<and> leaves s ! i = l)"
  by (auto simp: getStateByAccount_def split: option.splits)

lemma debit_Inr:
  "debit t i n = Inr t' \<longleftrightarrow>
     i < length t \<and> n \<le> amount (t ! i) \<and> t' = t[i := (t ! i)\<lparr>amount := amount (t ! i) - n\<rparr>]"
  by (auto simp: debit_def treeUpdate_def)

lemma debit_Inl:
  "debit t i n = Inl e \<Longrightarrow> \<not> (i < length t \<and> n \<le> amount (t ! i))"
  by (auto simp: debit_def treeUpdate_def split: if_splits)

lemma treeUpdate_Inr:
  "treeUpdate t i f = Inr t' \<longleftrightarrow> i < length t \<and> t' = t[i := f (t ! i)]"
  by (auto simp: treeUpdate_def)

lemma sum_amount_update:
  assumes "i < length t"
  shows "sum_list (map amount (t[i := l'])) + amount (t ! i) = sum_list (map amount t) + amount l'"
proof -
  have "sum_list ((map amount t)[i := amount l']) =
      sum_list (map amount t) + amount l' - (map amount t) ! i"
    using assms by (intro sum_list_update) simp
  moreover have "(map amount t) ! i \<le> sum_list (map amount t)"
    using assms by (simp add: member_le_sum_list)
  ultimately show ?thesis
    using assms by (simp add: map_update)
qed

text \<open>What the consolidation of a batch of one record does.\<close>

lemma consolidate_single:
  "transactions b = [r] \<Longrightarrow>
   consolidate H s b = Inr s' \<longleftrightarrow>
     (\<exists>st. applyTx (coins b) \<lparr>bsLeaves = leaves s, bsExits = [], bsFees = (\<lambda>c. 0)\<rparr> r = Inr st \<and>
        H (bsLeaves st) = newRoot b \<and>
        s' = \<lparr>leaves = bsLeaves st, registry = coins b, feesCollected = bsFees st,
              exitTrees = (if bsExits st = [] then exitTrees s
                           else (batchNumber b, bsExits st) # exitTrees s),
              lastBatch = batchNumber b\<rparr>)"
  by (auto simp: consolidate_def Let_def split: sum.splits)

lemma applyTx_Exit:
  assumes "txKind r = Exit"
  shows "applyTx reg st r = Inr st' \<longleftrightarrow>
     (\<exists>i. findAccount (bsLeaves st) (txCoin r) (fromAx r) (fromAy r) = Some i \<and>
        txAmount r + feeOf reg (txCoin r) \<le> amount (bsLeaves st ! i) \<and>
        st' = st\<lparr>bsLeaves := (bsLeaves st)[i := (bsLeaves st ! i)
                     \<lparr>amount := amount (bsLeaves st ! i) - (txAmount r + feeOf reg (txCoin r))\<rparr>],
                 bsExits := addExit (bsExits st) (bsLeaves st ! i) (txAmount r),
                 bsFees := (bsFees st)(txCoin r := bsFees st (txCoin r) + feeOf reg (txCoin r))\<rparr>)"
  using assms
  by (auto simp: applyTx_def Let_def debit_Inr split: option.splits sum.splits
      dest: findAccount_Some debit_Inl)

lemma applyTx_Transfer:
  assumes "txKind r = Transfer"
  shows "applyTx reg st r = Inr st' \<longleftrightarrow>
     (\<exists>i j. findAccount (bsLeaves st) (txCoin r) (fromAx r) (fromAy r) = Some i \<and>
        findAccount (bsLeaves st) (txCoin r) (toAx r) (toAy r) = Some j \<and>
        txAmount r + feeOf reg (txCoin r) \<le> amount (bsLeaves st ! i) \<and>
        st' = st\<lparr>bsLeaves :=
                   (let t' = (bsLeaves st)[i := (bsLeaves st ! i)
                      \<lparr>amount := amount (bsLeaves st ! i) - (txAmount r + feeOf reg (txCoin r))\<rparr>]
                    in t'[j := credit (txAmount r) (t' ! j)]),
                 bsFees := (bsFees st)(txCoin r := bsFees st (txCoin r) + feeOf reg (txCoin r))\<rparr>)"
  using assms
  by (auto simp: applyTx_def Let_def debit_Inr treeUpdate_Inr treeUpdate_def
      split: option.splits sum.splits dest: findAccount_Some debit_Inl)

text \<open>
  A batch of one withdrawal or one transfer is consolidated whenever the sender (and the
  recipient) has a leaf, the sender's balance covers the amount and the fee, and the
  root committed on-chain is the root of the updated leaves.
\<close>

lemma consolidate_exit_returns:
  assumes txs: "transactions b = [r]"
    and kind: "txKind r = Exit"
    and i: "findAccount (leaves s) (txCoin r) (fromAx r) (fromAy r) = Some i"
    and le: "txAmount r + feeOf (coins b) (txCoin r) \<le> amount (leaves s ! i)"
    and root: "newRoot b = H ((leaves s)[i := (leaves s ! i)
        \<lparr>amount := amount (leaves s ! i) - (txAmount r + feeOf (coins b) (txCoin r))\<rparr>])"
  shows "\<exists>s'. consolidate H s b = Inr s'"
  using i le root by (simp add: consolidate_single [OF txs] applyTx_Exit [OF kind])

lemma consolidate_transfer_returns:
  assumes txs: "transactions b = [r]"
    and kind: "txKind r = Transfer"
    and i: "findAccount (leaves s) (txCoin r) (fromAx r) (fromAy r) = Some i"
    and j: "findAccount (leaves s) (txCoin r) (toAx r) (toAy r) = Some j"
    and le: "txAmount r + feeOf (coins b) (txCoin r) \<le> amount (leaves s ! i)"
    and root: "newRoot b = H
        (let t' = (leaves s)[i := (leaves s ! i)
           \<lparr>amount := amount (leaves s ! i) - (txAmount r + feeOf (coins b) (txCoin r))\<rparr>]
         in t'[j := credit (txAmount r) (t' ! j)])"
  shows "\<exists>s'. consolidate H s b = Inr s'"
  using i j le root by (simp add: consolidate_single [OF txs] applyTx_Transfer [OF kind])

subsection \<open>The two batches of the test, evaluated\<close>

lemma example_batch9:
  "consolidate exampleRoot synchBatch8 batch9 = Inr synchBatch9"
  by (simp add: consolidate_def applyTx_def txKind_def debit_def treeUpdate_def addExit_def
      treeInsert_def feeOf_def synchBatch8_def batch9_def synchBatch9_def withdraw4_def
      rollupAccount_def exitAx_def exitAy_def fun_upd_idem_iff)

lemma example_batch10:
  "consolidate exampleRoot synchBatch9 batch10 = Inr synchBatch10"
  by (simp add: consolidate_def applyTx_def txKind_def debit_def treeUpdate_def credit_def
      feeOf_def synchBatch9_def batch10_def synchBatch10_def feeTransfer_def
      rollupAccount_def exitAx_def exitAy_def)

lemma example_withdraw4:
  "txCoin withdraw4 = 0" "fromAx withdraw4 = 9" "fromAy withdraw4 = 10"
  "txAmount withdraw4 = 2" "txKind withdraw4 = Exit"
  by (simp_all add: withdraw4_def txKind_def exitAx_def exitAy_def)

lemma example_feeTransfer:
  "txCoin feeTransfer = 0" "fromAx feeTransfer = 3" "fromAy feeTransfer = 4"
  "toAx feeTransfer = 7" "toAy feeTransfer = 8"
  "txAmount feeTransfer = 5" "userFee feeTransfer = 5" "txKind feeTransfer = Transfer"
  by (simp_all add: feeTransfer_def txKind_def exitAx_def exitAy_def)

lemma example_batches:
  "transactions batch9 = [withdraw4]" "coins batch9 = []" "batchNumber batch9 = 9"
  "transactions batch10 = [feeTransfer]" "coins batch10 = [(0, 5)]" "batchNumber batch10 = 10"
  by (simp_all add: batch9_def batch10_def)

lemma example_balances:
  "getStateByAccount synchBatch8 0 9 10 = Some (rollupAccount 4 3)"
  "getStateByAccount synchBatch9 0 3 4 = Some (rollupAccount 1 11)"
  "getStateByAccount synchBatch9 0 7 8 = Some (rollupAccount 3 0)"
  "getStateByAccount synchBatch10 0 3 4 = Some (rollupAccount 1 1)"
  "amount (rollupAccount i a) = a"
  by (simp_all add: getStateByAccount_def synchBatch8_def synchBatch9_def synchBatch10_def
      rollupAccount_def)


subsection \<open>A withdrawal\<close>

text \<open>
  Claim C4. A batch that holds one withdrawal has been consolidated, and the sender had a
  leaf before. Then the amount and the fee registered for the coin were covered by the
  sender's balance; the sender's balance is now lower by the amount and that fee (with
  no fee registered, as in the scenario, a withdrawal of 2 from a balance of 3 leaves
  1); the exit batches of the sender include the batch; and the exit tree information of
  the batch for the sender is found and holds the amount withdrawn.
\<close>

theorem withdraw_scenario:
  assumes ok: "consolidate H s b = Inr s'"
    and txs: "transactions b = [r]"
    and kind: "txKind r = Exit"
    and bal: "getStateByAccount s (txCoin r) (fromAx r) (fromAy r) = Some l"
  shows "txAmount r + feeOf (coins b) (txCoin r) \<le> amount l
    \<and> map_option amount (getStateByAccount s' (txCoin r) (fromAx r) (fromAy r)) =
        Some (amount l - txAmount r - feeOf (coins b) (txCoin r))
    \<and> batchNumber b \<in> set (getExitsBatchById s' (txCoin r) (fromAx r) (fromAy r))
    \<and> found (getExitTreeInfo s' (batchNumber b) (txCoin r) (fromAx r) (fromAy r))
    \<and> map_option amount
         (state (getExitTreeInfo s' (batchNumber b) (txCoin r) (fromAx r) (fromAy r))) =
        Some (txAmount r)"
proof -
  let ?c = "txCoin r" and ?x = "fromAx r" and ?y = "fromAy r"
  let ?n = "txAmount r + feeOf (coins b) (txCoin r)"
  from bal obtain i where i: "findAccount (leaves s) ?c ?x ?y = Some i" and l: "leaves s ! i = l"
    by (auto simp: getStateByAccount_Some)
  from findAccount_Some [OF i] l
  have len: "i < length (leaves s)" and key: "coin l = ?c" "ax l = ?x" "ay l = ?y"
    by auto
  let ?l' = "l\<lparr>amount := amount l - ?n\<rparr>"
  let ?e = "l\<lparr>amount := txAmount r\<rparr>"
  from ok txs obtain st where
    st: "applyTx (coins b) \<lparr>bsLeaves = leaves s, bsExits = [], bsFees = (\<lambda>c. 0)\<rparr> r = Inr st"
    and s': "s' = \<lparr>leaves = bsLeaves st, registry = coins b, feesCollected = bsFees st,
              exitTrees = (if bsExits st = [] then exitTrees s
                           else (batchNumber b, bsExits st) # exitTrees s),
              lastBatch = batchNumber b\<rparr>"
    by (auto simp: consolidate_single)
  from st i l have le: "?n \<le> amount l"
    and lv: "bsLeaves st = (leaves s)[i := ?l']"
    and ex: "bsExits st = [?e]"
    by (auto simp: applyTx_Exit [OF kind] addExit_def treeInsert_def)
  have f: "findAccount (bsLeaves st) ?c ?x ?y = Some i"
    unfolding lv using len l i by (simp add: findAccount_update)
  have a: "getStateByAccount s' ?c ?x ?y = Some ?l'"
    using f len by (simp add: getStateByAccount_def s' lv)
  have fe: "findAccount [?e] ?c ?x ?y = Some 0"
    using key by simp
  have t: "exitTrees s' = (batchNumber b, [?e]) # exitTrees s"
    by (simp add: s' ex)
  have m: "batchNumber b \<in> set (getExitsBatchById s' ?c ?x ?y)"
    unfolding getExitsBatchById_def t using fe by simp
  have g: "getExitTreeInfo s' (batchNumber b) ?c ?x ?y = \<lparr>found = True, state = Some ?e\<rparr>"
    unfolding getExitTreeInfo_def t using fe by simp
  show ?thesis
    using le a m g by simp
qed


theorem withdraw_scenario_witness:
  "consolidate exampleRoot synchBatch8 batch9 = Inr synchBatch9
   \<and> transactions batch9 = [withdraw4]
   \<and> txKind withdraw4 = Exit
   \<and> getStateByAccount synchBatch8 0 9 10 = Some (rollupAccount 4 3)
   \<and> map_option amount (getStateByAccount synchBatch9 0 9 10) = Some 1
   \<and> 9 \<in> set (getExitsBatchById synchBatch9 0 9 10)
   \<and> found (getExitTreeInfo synchBatch9 9 0 9 10)
   \<and> map_option amount (state (getExitTreeInfo synchBatch9 9 0 9 10)) = Some 2"
proof -
  have bal: "getStateByAccount synchBatch8 (txCoin withdraw4) (fromAx withdraw4)
      (fromAy withdraw4) = Some (rollupAccount 4 3)"
    by (simp add: example_withdraw4 example_balances)
  note t = withdraw_scenario [OF example_batch9 example_batches(1) example_withdraw4(5) bal]
  from t have "map_option amount (getStateByAccount synchBatch9 0 9 10) = Some 1
   \<and> 9 \<in> set (getExitsBatchById synchBatch9 0 9 10)
   \<and> found (getExitTreeInfo synchBatch9 9 0 9 10)
   \<and> map_option amount (state (getExitTreeInfo synchBatch9 9 0 9 10)) = Some 2"
    by (simp add: example_withdraw4 example_batches example_balances(5) feeOf_def)
  with example_batch9 example_batches(1) example_withdraw4(5) example_balances(1)
  show ?thesis by simp
qed


subsection \<open>A transfer with a fee\<close>

text \<open>
  Claim C3, as amended. A batch that holds one transfer between two different accounts has
  been consolidated. Then the sender is debited the amount and the fee registered for
  the coin (10 for a transfer of 5 with a fee of 5), the recipient is credited the
  amount, the fee is what the batch has collected for the coin, and the balances of all
  leaves together have fallen by exactly the collected fee: the fee is not lost.
\<close>

theorem transfer_with_fee:
  assumes ok: "consolidate H s b = Inr s'"
    and txs: "transactions b = [r]"
    and kind: "txKind r = Transfer"
    and snd: "getStateByAccount s (txCoin r) (fromAx r) (fromAy r) = Some ls"
    and rcv: "getStateByAccount s (txCoin r) (toAx r) (toAy r) = Some lr"
    and ne: "(fromAx r, fromAy r) \<noteq> (toAx r, toAy r)"
  shows "txAmount r + feeOf (coins b) (txCoin r) \<le> amount ls
    \<and> map_option amount (getStateByAccount s' (txCoin r) (fromAx r) (fromAy r)) =
        Some (amount ls - (txAmount r + feeOf (coins b) (txCoin r)))
    \<and> map_option amount (getStateByAccount s' (txCoin r) (toAx r) (toAy r)) =
        Some (amount lr + txAmount r)
    \<and> feesCollected s' (txCoin r) = feeOf (coins b) (txCoin r)
    \<and> sum_list (map amount (leaves s')) + feesCollected s' (txCoin r) =
        sum_list (map amount (leaves s))"
proof -
  let ?c = "txCoin r"
  let ?n = "txAmount r + feeOf (coins b) (txCoin r)"
  let ?t = "leaves s"
  from snd obtain i where i: "findAccount ?t ?c (fromAx r) (fromAy r) = Some i"
    and li: "?t ! i = ls"
    by (auto simp: getStateByAccount_Some)
  from rcv obtain j where j: "findAccount ?t ?c (toAx r) (toAy r) = Some j"
    and lj: "?t ! j = lr"
    by (auto simp: getStateByAccount_Some)
  have ij: "i \<noteq> j"
    using i j ne by (rule findAccount_distinct)
  from findAccount_Some [OF i] findAccount_Some [OF j]
  have len: "i < length ?t" "j < length ?t"
    by auto
  let ?ls' = "ls\<lparr>amount := amount ls - ?n\<rparr>"
  let ?t1 = "?t[i := ?ls']"
  let ?t2 = "?t1[j := credit (txAmount r) lr]"
  from ok txs obtain st where
    st: "applyTx (coins b) \<lparr>bsLeaves = leaves s, bsExits = [], bsFees = (\<lambda>c. 0)\<rparr> r = Inr st"
    and s': "s' = \<lparr>leaves = bsLeaves st, registry = coins b, feesCollected = bsFees st,
              exitTrees = (if bsExits st = [] then exitTrees s
                           else (batchNumber b, bsExits st) # exitTrees s),
              lastBatch = batchNumber b\<rparr>"
    by (auto simp: consolidate_single)
  from st i j li lj ij have le: "?n \<le> amount ls"
    and lv: "bsLeaves st = ?t2"
    and fees: "bsFees st ?c = feeOf (coins b) ?c"
    by (auto simp: applyTx_Transfer [OF kind] Let_def)
  have f1: "findAccount ?t1 c x y = findAccount ?t c x y" for c x y
    using len li by (simp add: findAccount_update)
  have f2: "findAccount ?t2 c x y = findAccount ?t c x y" for c x y
    using len lj ij f1 by (simp add: findAccount_update credit_def)
  have a: "getStateByAccount s' ?c (fromAx r) (fromAy r) = Some ?ls'"
    using i len ij by (simp add: getStateByAccount_def s' lv f2)
  have c: "getStateByAccount s' ?c (toAx r) (toAy r) = Some (credit (txAmount r) lr)"
    using j len ij by (simp add: getStateByAccount_def s' lv f2)
  have s1: "sum_list (map amount ?t1) + amount ls = sum_list (map amount ?t) + amount ?ls'"
    using sum_amount_update [OF len(1), of ?ls'] li by simp
  have "?t1 ! j = lr"
    using ij lj by simp
  with sum_amount_update [of j ?t1 "credit (txAmount r) lr"] len
  have s2: "sum_list (map amount ?t2) + amount lr =
      sum_list (map amount ?t1) + (amount lr + txAmount r)"
    by (simp add: credit_def)
  have tot: "sum_list (map amount ?t2) + feeOf (coins b) ?c = sum_list (map amount ?t)"
    using s1 s2 le by simp
  show ?thesis
    using le a c fees tot by (simp add: credit_def s' lv)
qed

theorem transfer_with_fee_witness:
  "consolidate exampleRoot synchBatch9 batch10 = Inr synchBatch10
   \<and> transactions batch10 = [feeTransfer]
   \<and> txKind feeTransfer = Transfer
   \<and> getStateByAccount synchBatch9 0 3 4 = Some (rollupAccount 1 11)
   \<and> getStateByAccount synchBatch9 0 7 8 = Some (rollupAccount 3 0)
   \<and> feeOf (coins batch10) 0 = 5
   \<and> map_option amount (getStateByAccount synchBatch10 0 3 4) = Some 1
   \<and> map_option amount (getStateByAccount synchBatch10 0 7 8) = Some 5
   \<and> feesCollected synchBatch10 0 = 5
   \<and> sum_list (map amount (leaves synchBatch10)) + 5 = sum_list (map amount (leaves synchBatch9))"
proof -
  have snd: "getStateByAccount synchBatch9 (txCoin feeTransfer) (fromAx feeTransfer)
      (fromAy feeTransfer) = Some (rollupAccount 1 11)"
    by (simp add: example_feeTransfer example_balances)
  have rcv: "getStateByAccount synchBatch9 (txCoin feeTransfer) (toAx feeTransfer)
      (toAy feeTransfer) = Some (rollupAccount 3 0)"
    by (simp add: example_feeTransfer example_balances)
  have ne: "(fromAx feeTransfer, fromAy feeTransfer) \<noteq> (toAx feeTransfer, toAy feeTransfer)"
    by (simp add: example_feeTransfer)
  have fee: "feeOf (coins batch10) 0 = 5"
    by (simp add: example_batches feeOf_def)
  note t = transfer_with_fee [OF example_batch10 example_batches(4) example_feeTransfer(8)
      snd rcv ne]
  from t have "map_option amount (getStateByAccount synchBatch10 0 3 4) = Some 1
   \<and> map_option amount (getStateByAccount synchBatch10 0 7 8) = Some 5
   \<and> feesCollected synchBatch10 0 = 5
   \<and> sum_list (map amount (leaves synchBatch10)) + 5 = sum_list (map amount (leaves synchBatch9))"
    by (simp add: example_feeTransfer fee example_balances(5))
  with example_batch10 example_batches(4) example_feeTransfer(8) example_balances(2,3) fee
  show ?thesis by simp
qed


text \<open>
  Claim C3 as the spec states it, that the sender is debited 5 (the amount alone), fails
  on batch 10 of the test: the sender's balance goes from 11 to 1, not to 6.
\<close>

theorem transfer_debits_amount_only_counterexample:
  "consolidate exampleRoot synchBatch9 batch10 = Inr synchBatch10
   \<and> transactions batch10 = [feeTransfer]
   \<and> txAmount feeTransfer = 5 \<and> userFee feeTransfer = 5 \<and> feeOf (coins batch10) 0 = 5
   \<and> map_option amount (getStateByAccount synchBatch9 0 3 4) = Some 11
   \<and> map_option amount (getStateByAccount synchBatch10 0 3 4) = Some 1
   \<and> (11::nat) - 5 \<noteq> 1"
  by (simp add: example_batch10 example_batches example_feeTransfer example_balances feeOf_def)

end
